theory Spec2Isabelle
  imports Main "HOL-Library.Sublist" "HOL-Library.Multiset"
begin

section \<open>Python built-ins used by the two scripts\<close>

text \<open>
  \<^verbatim>\<open>config.get(key, default)\<close> on the dictionary that \<^verbatim>\<open>read_config\<close> returns.
\<close>

type_synonym config = "string \<rightharpoonup> string"

definition config_get :: "config \<Rightarrow> string \<Rightarrow> string \<Rightarrow> string" where
  "config_get config key dflt = (case config key of None \<Rightarrow> dflt | Some v \<Rightarrow> v)"

text \<open>\<^verbatim>\<open>str(i)\<close> for an integer, as the f-strings format the indices.\<close>

fun digits_of :: "nat \<Rightarrow> string" where
  "digits_of n =
     (if n < 10 then [''0123456789'' ! n]
      else digits_of (n div 10) @ [''0123456789'' ! (n mod 10)])"

declare digits_of.simps [simp del]

definition str_int :: "int \<Rightarrow> string" where
  "str_int i = (if i < 0 then CHR ''-'' # digits_of (nat (- i)) else digits_of (nat i))"

text \<open>
  \<^verbatim>\<open>s.strip().lower()\<close>, on ASCII text: the white space of \<^verbatim>\<open>strip\<close> is blank,
  tab, line feed, vertical tab, form feed, carriage return and the four separators
  \<^verbatim>\<open>0x1c\<close> to \<^verbatim>\<open>0x1f\<close>.
\<close>

definition is_space :: "char \<Rightarrow> bool" where
  "is_space c = (let n = (of_char c :: nat) in n = 32 \<or> (9 \<le> n \<and> n \<le> 13) \<or> (28 \<le> n \<and> n \<le> 31))"

definition strip :: "string \<Rightarrow> string" where
  "strip s = rev (dropWhile is_space (rev (dropWhile is_space s)))"

definition lower_char :: "char \<Rightarrow> char" where
  "lower_char c = (let n = (of_char c :: nat) in if 65 \<le> n \<and> n \<le> 90 then char_of (n + 32) else c)"

definition lower :: "string \<Rightarrow> string" where
  "lower s = map lower_char s"

text \<open>\<^verbatim>\<open>needle in hay\<close> on strings.\<close>

fun str_contains :: "string \<Rightarrow> string \<Rightarrow> bool" where
  "str_contains needle [] = (needle = [])"
| "str_contains needle (c # cs) = (prefix needle (c # cs) \<or> str_contains needle cs)"

text \<open>\<^verbatim>\<open>range(a, b)\<close>.\<close>

definition range_py :: "int \<Rightarrow> int \<Rightarrow> int list" where
  "range_py a b = [a..b - 1]"

section \<open>Data model\<close>

text \<open>
  The scripts tell two kinds of exception apart: \<^verbatim>\<open>GithubException\<close>, of which
  they read the \<^verbatim>\<open>status\<close>, and every other \<^verbatim>\<open>Exception\<close>, of which
  \<^verbatim>\<open>org/pyhon.py\<close> reads \<^verbatim>\<open>str(err)\<close>.
\<close>

datatype exn = GithubException int | Exception string

text \<open>A repository handle; the scripts read its \<^verbatim>\<open>name\<close>.\<close>

datatype repo = Repo (name: string)

text \<open>The failure record \<^verbatim>\<open>(repo, file_index, file_size)\<close>.\<close>

type_synonym task = "repo \<times> int \<times> int"

text \<open>What \<^verbatim>\<open>create_junk_file\<close> of \<^verbatim>\<open>org/pyhon.py\<close> returns: \<^verbatim>\<open>True\<close> or the record.\<close>

datatype result = RTrue | RTask task

text \<open>
  The remote calls. The content of a file is random
  (\<^verbatim>\<open>random_string_newlined(file_size)\<close>); a call records the \<^verbatim>\<open>file_size\<close> it
  was generated from. \<^verbatim>\<open>Create_repo\<close> carries name, description and privacy
  (\<^verbatim>\<open>auto_init\<close> is always \<^verbatim>\<open>True\<close>); \<^verbatim>\<open>Create_file\<close> carries path, message
  and size; \<^verbatim>\<open>Update_file\<close> carries path, message, size and the sha.
\<close>

datatype call =
    Create_repo string string bool
  | Create_file repo string string int
  | Get_contents repo string
  | Update_file repo string string int string

text \<open>The lines the scripts print, one constructor for each \<^verbatim>\<open>print\<close>.\<close>

datatype msg =
    Created_file string string
  | Updated_file string string
  | Error_updating_file string string exn
  | Forbidden_403 string string exn
  | Waiting_before_retrying nat
  | Error_creating_file string string exn
  | Created_repository string
  | Error_creating_repository string exn
  | Retrying_after_delay nat nat
  | Retry_attempt int
  | All_succeeded_on_retry
  | Still_failed nat
  | After_retries_still_failed nat nat
  | All_succeeded_first_pass
  | Updated_file_after_delay string string
  | Error_updating_file_after_delay string string exn
  | Error_during_file_processing exn

text \<open>
  What a run does, in order: remote calls, \<^verbatim>\<open>time.sleep(n)\<close> and printed lines.
\<close>

datatype event = Call call | Sleep nat | Print msg

text \<open>
  The remote side (PyGithub and the service behind it) is a collaborator of the
  scripts. Each of its calls answers from the history of events so far and the
  arguments, with a value or an exception; every stateful remote is such a function.
\<close>

record remote =
  create_repo :: "event list \<Rightarrow> string \<Rightarrow> string \<Rightarrow> bool \<Rightarrow> exn + repo"
  create_file :: "event list \<Rightarrow> repo \<Rightarrow> string \<Rightarrow> string \<Rightarrow> int \<Rightarrow> exn + unit"
  get_contents :: "event list \<Rightarrow> repo \<Rightarrow> string \<Rightarrow> exn + string"
  update_file :: "event list \<Rightarrow> repo \<Rightarrow> string \<Rightarrow> string \<Rightarrow> int \<Rightarrow> string \<Rightarrow> exn + unit"

section \<open>\<^verbatim>\<open>org/pyhon.py\<close>\<close>

definition MAX_RETRIES :: int where "MAX_RETRIES = 3"
definition RETRY_DELAY :: nat where "RETRY_DELAY = 5"
definition RATE_LIMIT_DELAY :: nat where "RATE_LIMIT_DELAY = 60"

definition file_name_of :: "config \<Rightarrow> int \<Rightarrow> string" where
  "file_name_of config file_index =
     config_get config ''FILE_NAME_PREFIX'' ''junk-'' @ str_int file_index @ ''.''
       @ config_get config ''FILE_EXTENSION'' ''txt''"

definition commit_message_of :: "string \<Rightarrow> string" where
  "commit_message_of file_name = ''Add/Update file '' @ file_name @ '' with junk content''"

text \<open>
  \<^verbatim>\<open>create_junk_file(repo, file_index, file_size, config)\<close>. The function takes the
  history \<open>h\<close> of the run so far and returns its result with the events it adds.
  An exception raised inside an \<^verbatim>\<open>except\<close> block is not caught by the sibling
  clauses of the same \<^verbatim>\<open>try\<close>: in the 409 branch only \<^verbatim>\<open>GithubException\<close> is
  caught, every other exception leaves the function.
\<close>

definition create_junk_file ::
  "remote \<Rightarrow> repo \<Rightarrow> int \<Rightarrow> int \<Rightarrow> config \<Rightarrow> event list \<Rightarrow> (exn + result) \<times> event list" where
  "create_junk_file env repo file_index file_size config h =
     (let file_name = file_name_of config file_index;
          commit_message = commit_message_of file_name;
          c1 = Call (Create_file repo file_name commit_message file_size);
          failed = Inr (RTask (repo, file_index, file_size))
      in case create_file env h repo file_name commit_message file_size of
           Inr _ \<Rightarrow> (Inr RTrue, [c1, Print (Created_file file_name (name repo))])
         | Inl (GithubException status) \<Rightarrow>
             if status = 409 then
               (let c2 = Call (Get_contents repo file_name)
                in case get_contents env (h @ [c1]) repo file_name of
                     Inl (GithubException s) \<Rightarrow>
                       (failed, [c1, c2,
                          Print (Error_updating_file file_name (name repo) (GithubException s))])
                   | Inl (Exception s) \<Rightarrow> (Inl (Exception s), [c1, c2])
                   | Inr sha \<Rightarrow>
                       (let c3 = Call (Update_file repo file_name commit_message file_size sha)
                        in case update_file env (h @ [c1, c2]) repo file_name commit_message
                                  file_size sha of
                             Inr _ \<Rightarrow>
                               (Inr RTrue, [c1, c2, c3, Print (Updated_file file_name (name repo))])
                           | Inl (GithubException s) \<Rightarrow>
                               (failed, [c1, c2, c3,
                                  Print (Error_updating_file file_name (name repo)
                                    (GithubException s))])
                           | Inl (Exception s) \<Rightarrow> (Inl (Exception s), [c1, c2, c3])))
             else if status = 403 then
               (failed, [c1, Print (Forbidden_403 file_name (name repo) (GithubException status)),
                  Print (Waiting_before_retrying RATE_LIMIT_DELAY), Sleep RATE_LIMIT_DELAY])
             else
               (failed, [c1,
                  Print (Error_creating_file file_name (name repo) (GithubException status))])
         | Inl (Exception err_str) \<Rightarrow>
             if str_contains ''403'' err_str then
               (failed, [c1, Print (Forbidden_403 file_name (name repo) (Exception err_str)),
                  Print (Waiting_before_retrying RATE_LIMIT_DELAY), Sleep RATE_LIMIT_DELAY])
             else
               (failed, [c1,
                  Print (Error_creating_file file_name (name repo) (Exception err_str))]))"

text \<open>
  \<^verbatim>\<open>ThreadPoolExecutor(max_workers=n)\<close> of the standard library raises
  \<^verbatim>\<open>ValueError("max_workers must be greater than 0")\<close> when \<open>n \<le> 0\<close>.
\<close>

definition ThreadPoolExecutor :: "int \<Rightarrow> exn + unit" where
  "ThreadPoolExecutor max_workers =
     (if max_workers \<le> 0 then Inl (Exception ''max_workers must be greater than 0'')
      else Inr ())"

text \<open>
  The work of the pool in \<^verbatim>\<open>process_repo\<close>. Each submitted call of
  \<^verbatim>\<open>create_junk_file\<close> runs as one block; \<open>is\<close> is the order in which the blocks
  run and complete. The pool runs every submitted call, also after the collecting loop
  has stopped (leaving the \<^verbatim>\<open>with\<close> block waits for them).
\<close>

fun run_workers ::
  "remote \<Rightarrow> repo \<Rightarrow> int \<Rightarrow> config \<Rightarrow> int list \<Rightarrow> event list
     \<Rightarrow> (exn + result) list \<times> event list" where
  "run_workers env repo file_size config [] h = ([], [])"
| "run_workers env repo file_size config (i # is) h =
     (let (r, ev) = create_junk_file env repo i file_size config h;
          (rs, evs) = run_workers env repo file_size config is (h @ ev)
      in (r # rs, ev @ evs))"

text \<open>
  The loop over \<^verbatim>\<open>as_completed(futures)\<close> of \<^verbatim>\<open>process_repo\<close>:
  \<^verbatim>\<open>future.result()\<close> raises what the worker raised, which ends the loop; a result
  that is not \<^verbatim>\<open>True\<close> is appended to \<^verbatim>\<open>failed_files\<close>; slow mode sleeps after
  each result. Returns the exception that ended the loop, if any, the list and the
  events of the collecting thread.
\<close>

fun collect_results ::
  "(exn + result) list \<Rightarrow> bool \<Rightarrow> task list \<Rightarrow> exn option \<times> task list \<times> event list" where
  "collect_results [] slow_mode failed_files = (None, failed_files, [])"
| "collect_results (Inl err # rs) slow_mode failed_files = (Some err, failed_files, [])"
| "collect_results (Inr res # rs) slow_mode failed_files =
     (let failed_files' = (case res of RTrue \<Rightarrow> failed_files | RTask t \<Rightarrow> failed_files @ [t]);
          ev = (if slow_mode then [Sleep 1] else []);
          (err, failed_files'', evs) = collect_results rs slow_mode failed_files'
      in (err, failed_files'', ev @ evs))"

text \<open>The name, the description and the privacy that \<^verbatim>\<open>process_repo\<close> reads from the configuration.\<close>

definition repo_name_of :: "config \<Rightarrow> int \<Rightarrow> string" where
  "repo_name_of config repo_index =
     config_get config ''REPO_NAME_PREFIX'' ''junk-repo-'' @ str_int repo_index"

definition repo_description_of :: "config \<Rightarrow> string" where
  "repo_description_of config =
     config_get config ''REPO_DESCRIPTION'' ''Repository filled with junk content''"

definition private_repo_of :: "config \<Rightarrow> bool" where
  "private_repo_of config =
     (lower (strip (config_get config ''PRIVATE_REPO'' ''False'')) = ''true'')"

definition max_workers_files :: "bool \<Rightarrow> int \<Rightarrow> int" where
  "max_workers_files slow_mode num_files = (if slow_mode then 1 else num_files)"

text \<open>
  \<^verbatim>\<open>process_repo(repo_index, num_files, file_size, org, config, slow_mode)\<close>;
  \<open>env\<close> stands for \<^verbatim>\<open>org\<close> and the repositories it hands out, \<open>sched\<close> for
  the order in which the pool completes the submitted calls. The events of the workers
  are recorded before those of the collecting loop. The function cannot raise: its
  \<^verbatim>\<open>except Exception\<close> covers the whole \<^verbatim>\<open>try\<close> block, with the message of a
  failed repository creation whatever was raised.
\<close>

definition process_repo ::
  "remote \<Rightarrow> (int list \<Rightarrow> int list) \<Rightarrow> int \<Rightarrow> int \<Rightarrow> int \<Rightarrow> config \<Rightarrow> bool \<Rightarrow> event list
     \<Rightarrow> task list \<times> event list" where
  "process_repo env sched repo_index num_files file_size config slow_mode h =
     (let repo_name = repo_name_of config repo_index;
          repo_description = repo_description_of config;
          private_repo = private_repo_of config;
          c0 = Call (Create_repo repo_name repo_description private_repo)
      in case create_repo env h repo_name repo_description private_repo of
           Inl err \<Rightarrow> ([], [c0, Print (Error_creating_repository repo_name err)])
         | Inr repo \<Rightarrow>
             (let ev1 = [c0, Print (Created_repository repo_name)]
              in case ThreadPoolExecutor (max_workers_files slow_mode num_files) of
                   Inl err \<Rightarrow> ([], ev1 @ [Print (Error_creating_repository repo_name err)])
                 | Inr _ \<Rightarrow>
                     (let (results, ev2) =
                            run_workers env repo file_size config
                              (sched (range_py 1 (num_files + 1))) (h @ ev1);
                          (raised, failed_files, ev3) = collect_results results slow_mode []
                      in case raised of
                           None \<Rightarrow> (failed_files, ev1 @ ev2 @ ev3)
                         | Some err \<Rightarrow>
                             (failed_files,
                              ev1 @ ev2 @ ev3 @ [Print (Error_creating_repository repo_name err)]))))"

text \<open>
  \<^verbatim>\<open>retry_failed_files(failed_tasks, config, slow_mode)\<close>: a plain loop in the calling
  thread, with \<^verbatim>\<open>new_failures\<close> as accumulator. Nothing here catches an exception
  of \<^verbatim>\<open>create_junk_file\<close>.
\<close>

fun retry_loop ::
  "remote \<Rightarrow> config \<Rightarrow> bool \<Rightarrow> task list \<Rightarrow> task list \<Rightarrow> event list
     \<Rightarrow> (exn + task list) \<times> event list" where
  "retry_loop env config slow_mode [] new_failures h = (Inr new_failures, [])"
| "retry_loop env config slow_mode ((repo, file_index, file_size) # tasks) new_failures h =
     (let ev0 = (if slow_mode then [Sleep 1] else []);
          (r, ev1) = create_junk_file env repo file_index file_size config (h @ ev0)
      in case r of
           Inl err \<Rightarrow> (Inl err, ev0 @ ev1)
         | Inr res \<Rightarrow>
             (let new_failures' =
                    (case res of RTrue \<Rightarrow> new_failures | RTask t \<Rightarrow> new_failures @ [t]);
                  (r', ev2) = retry_loop env config slow_mode tasks new_failures' (h @ ev0 @ ev1)
              in (r', ev0 @ ev1 @ ev2)))"

definition retry_failed_files ::
  "remote \<Rightarrow> task list \<Rightarrow> config \<Rightarrow> bool \<Rightarrow> event list \<Rightarrow> (exn + task list) \<times> event list" where
  "retry_failed_files env failed_tasks config slow_mode h =
     retry_loop env config slow_mode failed_tasks [] h"

text \<open>
  The global retry of \<^verbatim>\<open>main\<close> (from \<^verbatim>\<open># Global retry for failed file tasks\<close> to
  the end). \<open>retry_rounds\<close> is the loop \<^verbatim>\<open>for attempt in range(MAX_RETRIES)\<close> over
  the values of \<^verbatim>\<open>attempt\<close> still to come.
\<close>

fun retry_rounds ::
  "remote \<Rightarrow> config \<Rightarrow> bool \<Rightarrow> int list \<Rightarrow> task list \<Rightarrow> event list
     \<Rightarrow> (exn + task list) \<times> event list" where
  "retry_rounds env config slow_mode [] global_failed_files h = (Inr global_failed_files, [])"
| "retry_rounds env config slow_mode (attempt # attempts) global_failed_files h =
     (let ev0 = [Print (Retry_attempt (attempt + 1))];
          (r, ev1) = retry_failed_files env global_failed_files config slow_mode (h @ ev0)
      in case r of
           Inl err \<Rightarrow> (Inl err, ev0 @ ev1)
         | Inr global_failed_files' \<Rightarrow>
             if global_failed_files' = [] then
               (Inr global_failed_files', ev0 @ ev1 @ [Print All_succeeded_on_retry])
             else
               (let ev2 = [Print (Still_failed (length global_failed_files')), Sleep RETRY_DELAY];
                    (r', ev3) = retry_rounds env config slow_mode attempts global_failed_files'
                                  (h @ ev0 @ ev1 @ ev2)
                in (r', ev0 @ ev1 @ ev2 @ ev3)))"

definition main_global_retry ::
  "remote \<Rightarrow> config \<Rightarrow> bool \<Rightarrow> task list \<Rightarrow> event list \<Rightarrow> (exn + task list) \<times> event list" where
  "main_global_retry env config slow_mode global_failed_files h =
     (if global_failed_files \<noteq> [] then
        (let ev0 = [Print (Retrying_after_delay (length global_failed_files) RETRY_DELAY),
                    Sleep RETRY_DELAY];
             (r, ev1) = retry_rounds env config slow_mode (range_py 0 MAX_RETRIES)
                          global_failed_files (h @ ev0)
         in case r of
              Inl err \<Rightarrow> (Inl err, ev0 @ ev1)
            | Inr global_failed_files' \<Rightarrow>
                if global_failed_files' \<noteq> [] then
                  (Inr global_failed_files',
                   ev0 @ ev1 @ [Print (After_retries_still_failed (nat MAX_RETRIES)
                                         (length global_failed_files'))])
                else (Inr global_failed_files', ev0 @ ev1))
      else (Inr global_failed_files, [Print All_succeeded_first_pass]))"

section \<open>\<^verbatim>\<open>repo/python.py\<close>\<close>

text \<open>
  \<^verbatim>\<open>create_junk_file\<close> of \<^verbatim>\<open>repo/python.py\<close>. It returns nothing, has no
  \<^verbatim>\<open>except Exception\<close> clause, and after the wait of the 403 branch it reads the
  file and updates it.
\<close>

definition python_create_junk_file ::
  "remote \<Rightarrow> repo \<Rightarrow> int \<Rightarrow> int \<Rightarrow> config \<Rightarrow> event list \<Rightarrow> (exn + unit) \<times> event list" where
  "python_create_junk_file env repo file_index file_size config h =
     (let file_name = file_name_of config file_index;
          commit_message = commit_message_of file_name;
          c1 = Call (Create_file repo file_name commit_message file_size)
      in case create_file env h repo file_name commit_message file_size of
           Inr _ \<Rightarrow> (Inr (), [c1, Print (Created_file file_name (name repo))])
         | Inl (Exception s) \<Rightarrow> (Inl (Exception s), [c1])
         | Inl (GithubException status) \<Rightarrow>
             if status = 409 then
               (let c2 = Call (Get_contents repo file_name)
                in case get_contents env (h @ [c1]) repo file_name of
                     Inl (GithubException s) \<Rightarrow>
                       (Inr (), [c1, c2,
                          Print (Error_updating_file file_name (name repo) (GithubException s))])
                   | Inl (Exception s) \<Rightarrow> (Inl (Exception s), [c1, c2])
                   | Inr sha \<Rightarrow>
                       (let c3 = Call (Update_file repo file_name commit_message file_size sha)
                        in case update_file env (h @ [c1, c2]) repo file_name commit_message
                                  file_size sha of
                             Inr _ \<Rightarrow>
                               (Inr (), [c1, c2, c3, Print (Updated_file file_name (name repo))])
                           | Inl (GithubException s) \<Rightarrow>
                               (Inr (), [c1, c2, c3,
                                  Print (Error_updating_file file_name (name repo)
                                    (GithubException s))])
                           | Inl (Exception s) \<Rightarrow> (Inl (Exception s), [c1, c2, c3])))
             else if status = 403 then
               (let ev0 = [c1, Print (Forbidden_403 file_name (name repo) (GithubException status)),
                           Print (Waiting_before_retrying 60), Sleep 60];
                    c2 = Call (Get_contents repo file_name)
                in case get_contents env (h @ ev0) repo file_name of
                     Inl (GithubException s) \<Rightarrow>
                       (Inr (), ev0 @ [c2,
                          Print (Error_updating_file_after_delay file_name (name repo)
                            (GithubException s))])
                   | Inl (Exception s) \<Rightarrow> (Inl (Exception s), ev0 @ [c2])
                   | Inr sha \<Rightarrow>
                       (let c3 = Call (Update_file repo file_name commit_message file_size sha)
                        in case update_file env (h @ ev0 @ [c2]) repo file_name commit_message
                                  file_size sha of
                             Inr _ \<Rightarrow>
                               (Inr (), ev0 @ [c2, c3,
                                  Print (Updated_file_after_delay file_name (name repo))])
                           | Inl (GithubException s) \<Rightarrow>
                               (Inr (), ev0 @ [c2, c3,
                                  Print (Error_updating_file_after_delay file_name (name repo)
                                    (GithubException s))])
                           | Inl (Exception s) \<Rightarrow> (Inl (Exception s), ev0 @ [c2, c3])))
             else
               (Inr (), [c1,
                  Print (Error_creating_file file_name (name repo) (GithubException status))]))"

fun python_run_workers ::
  "remote \<Rightarrow> repo \<Rightarrow> int \<Rightarrow> config \<Rightarrow> int list \<Rightarrow> event list
     \<Rightarrow> (exn + unit) list \<times> event list" where
  "python_run_workers env repo file_size config [] h = ([], [])"
| "python_run_workers env repo file_size config (i # is) h =
     (let (r, ev) = python_create_junk_file env repo i file_size config h;
          (rs, evs) = python_run_workers env repo file_size config is (h @ ev)
      in (r # rs, ev @ evs))"

text \<open>
  The loop over \<^verbatim>\<open>as_completed(futures)\<close> of \<^verbatim>\<open>main\<close>: an exception of
  \<^verbatim>\<open>future.result()\<close> is caught and printed for each future.
\<close>

fun python_collect_results :: "(exn + unit) list \<Rightarrow> bool \<Rightarrow> event list" where
  "python_collect_results [] slow_mode = []"
| "python_collect_results (r # rs) slow_mode =
     (case r of Inl e \<Rightarrow> [Print (Error_during_file_processing e)] | Inr _ \<Rightarrow> [])
       @ (if slow_mode then [Sleep 1] else [])
       @ python_collect_results rs slow_mode"

definition python_max_workers :: "bool \<Rightarrow> int \<Rightarrow> int" where
  "python_max_workers slow_mode num_files = (if slow_mode then 1 else num_files)"

text \<open>
  \<^verbatim>\<open>main\<close> from \<^verbatim>\<open># Adjust the number of threads based on the mode\<close> to its end,
  for the repository \<open>repo\<close> found or created before. Nothing catches what
  \<^verbatim>\<open>ThreadPoolExecutor\<close> raises.
\<close>

definition python_main_files ::
  "remote \<Rightarrow> (int list \<Rightarrow> int list) \<Rightarrow> repo \<Rightarrow> int \<Rightarrow> int \<Rightarrow> config \<Rightarrow> bool \<Rightarrow> event list
     \<Rightarrow> (exn + unit) \<times> event list" where
  "python_main_files env sched repo num_files file_size config slow_mode h =
     (case ThreadPoolExecutor (python_max_workers slow_mode num_files) of
        Inl err \<Rightarrow> (Inl err, [])
      | Inr _ \<Rightarrow>
          (let (results, ev1) =
                 python_run_workers env repo file_size config
                   (sched (range_py 1 (num_files + 1))) h
           in (Inr (), ev1 @ python_collect_results results slow_mode)))"

section \<open>The worker pool\<close>

text \<open>
  A \<^verbatim>\<open>ThreadPoolExecutor\<close> with \<open>max_workers\<close> threads: submitted calls wait in a
  queue, a call starts when fewer than \<open>max_workers\<close> calls are running, and any
  running call may complete next. The dispatchers make this pool with the width
  \<open>max_workers_files slow_mode num_files\<close> and submit the calls for the indices
  \<open>range_py 1 (num_files + 1)\<close>; the order \<open>sched\<close> in which they see the calls
  complete is the \<open>completed\<close> list of a state of this pool in which nothing waits or
  runs any more.
\<close>

record 'a pool =
  waiting :: "'a list"
  running :: "'a list"
  completed :: "'a list"

inductive pool_step :: "int \<Rightarrow> 'a pool \<Rightarrow> 'a pool \<Rightarrow> bool" for max_workers :: int where
  start: "waiting p = x # xs \<Longrightarrow> int (length (running p)) < max_workers \<Longrightarrow>
     pool_step max_workers p \<lparr>waiting = xs, running = running p @ [x], completed = completed p\<rparr>"
| finish: "x \<in> set (running p) \<Longrightarrow>
     pool_step max_workers p
       \<lparr>waiting = waiting p, running = remove1 x (running p), completed = completed p @ [x]\<rparr>"

code_pred pool_step .

inductive pool_reachable :: "int \<Rightarrow> 'a list \<Rightarrow> 'a pool \<Rightarrow> bool"
  for max_workers :: int and futures :: "'a list" where
  submitted: "pool_reachable max_workers futures \<lparr>waiting = futures, running = [], completed = []\<rparr>"
| step: "pool_reachable max_workers futures p \<Longrightarrow> pool_step max_workers p q \<Longrightarrow>
     pool_reachable max_workers futures q"

section \<open>Reading a run\<close>

text \<open>The remote calls on items (files) among the events of a run, in order.\<close>

fun is_item_call :: "event \<Rightarrow> bool" where
  "is_item_call (Call (Create_file r p m s)) = True"
| "is_item_call (Call (Get_contents r p)) = True"
| "is_item_call (Call (Update_file r p m s sha)) = True"
| "is_item_call e = False"

definition item_calls :: "event list \<Rightarrow> event list" where
  "item_calls ev = filter is_item_call ev"

text \<open>The rounds of the global retry that a run has started: each prints its number.\<close>

fun is_round_start :: "event \<Rightarrow> bool" where
  "is_round_start (Print (Retry_attempt k)) = True"
| "is_round_start e = False"

definition rounds :: "event list \<Rightarrow> nat" where
  "rounds ev = length (filter is_round_start ev)"

text \<open>The call that creates the file of an operation.\<close>

definition create_call :: "config \<Rightarrow> task \<Rightarrow> event" where
  "create_call config t =
     (case t of (repo, file_index, file_size) \<Rightarrow>
        Call (Create_file repo (file_name_of config file_index)
                (commit_message_of (file_name_of config file_index)) file_size))"

fun is_create_call :: "event \<Rightarrow> bool" where
  "is_create_call (Call (Create_file r p m s)) = True"
| "is_create_call e = False"

text \<open>
  What \<open>create_junk_file\<close> of \<^verbatim>\<open>org/pyhon.py\<close> does in its 403 branches: the call
  that creates the file, two printed lines and the wait.
\<close>

definition rate_limit_events :: "config \<Rightarrow> task \<Rightarrow> exn \<Rightarrow> event list" where
  "rate_limit_events config t e =
     (case t of (repo, file_index, file_size) \<Rightarrow>
        [create_call config (repo, file_index, file_size),
         Print (Forbidden_403 (file_name_of config file_index) (name repo) e),
         Print (Waiting_before_retrying RATE_LIMIT_DELAY), Sleep RATE_LIMIT_DELAY])"

section \<open>Remotes to run the scripts against\<close>

text \<open>A remote on which every call succeeds.\<close>

definition remote_ok :: remote where
  "remote_ok =
     \<lparr>create_repo = (\<lambda>h n d p. Inr (Repo n)),
      create_file = (\<lambda>h r p m s. Inr ()),
      get_contents = (\<lambda>h r p. Inr ''sha''),
      update_file = (\<lambda>h r p m s sha. Inr ())\<rparr>"

text \<open>A remote that refuses to create \<^verbatim>\<open>junk-2.txt\<close>, with status 500.\<close>

definition remote_second_fails :: remote where
  "remote_second_fails =
     remote_ok\<lparr>create_file :=
       (\<lambda>h r p m s. if p = ''junk-2.txt'' then Inl (GithubException 500) else Inr ())\<rparr>"

text \<open>A remote on which every creation of a file raises the same exception.\<close>

definition remote_create_raises :: "exn \<Rightarrow> remote" where
  "remote_create_raises e = remote_ok\<lparr>create_file := (\<lambda>h r p m s. Inl e)\<rparr>"

text \<open>
  A remote on which every file exists already (status 409) and every update answers
  \<open>u\<close>.
\<close>

definition remote_conflict :: "exn + unit \<Rightarrow> remote" where
  "remote_conflict u =
     remote_ok\<lparr>create_file := (\<lambda>h r p m s. Inl (GithubException 409)),
               update_file := (\<lambda>h r p m s sha. u)\<rparr>"

text \<open>A remote that cannot create a repository.\<close>

definition remote_no_repo :: remote where
  "remote_no_repo = remote_ok\<lparr>create_repo := (\<lambda>h n d p. Inl (GithubException 422))\<rparr>"

text \<open>
  A remote on which \<^verbatim>\<open>junk-1.txt\<close> exists already, every update drops the connection
  and every other file is refused with status 500.
\<close>

definition remote_mixed :: remote where
  "remote_mixed =
     remote_ok\<lparr>create_file :=
                 (\<lambda>h r p m s. if p = ''junk-1.txt'' then Inl (GithubException 409)
                              else Inl (GithubException 500)),
               update_file := (\<lambda>h r p m s sha. Inl (Exception ''Connection reset''))\<rparr>"

section \<open>One operation\<close>

lemma create_junk_file_record:
  "create_junk_file env repo i s config h = (Inr (RTask t), ev) \<Longrightarrow> t = (repo, i, s)"
  by (auto simp: create_junk_file_def Let_def split: sum.splits exn.splits if_splits)

lemma create_junk_file_create_calls:
  "create_junk_file env repo i s config h = (r, ev) \<Longrightarrow>
     filter is_create_call ev = [create_call config (repo, i, s)]"
  by (auto simp: create_junk_file_def create_call_def Let_def
      split: sum.splits exn.splits if_splits)

lemma create_junk_file_no_round_start:
  "create_junk_file env repo i s config h = (r, ev) \<Longrightarrow> filter is_round_start ev = []"
  by (auto simp: create_junk_file_def Let_def split: sum.splits exn.splits if_splits)

section \<open>One retry round\<close>

lemma retry_loop_acc:
  "retry_loop env config slow_mode tasks acc h = (Inr nf, ev) \<Longrightarrow>
     \<exists>new. nf = acc @ new \<and> subseq new tasks"
proof (induction tasks arbitrary: acc h nf ev)
  case Nil
  then show ?case by simp
next
  case (Cons task tasks)
  obtain repo i s where task: "task = (repo, i, s)" by (cases task) auto
  let ?ev0 = "if slow_mode then [Sleep 1] else []"
  obtain r ev1 where c: "create_junk_file env repo i s config (h @ ?ev0) = (r, ev1)"
    by (cases "create_junk_file env repo i s config (h @ ?ev0)") auto
  show ?case
  proof (cases r)
    case (Inl e)
    with Cons.prems task c show ?thesis by simp
  next
    case (Inr res)
    let ?acc' = "case res of RTrue \<Rightarrow> acc | RTask t \<Rightarrow> acc @ [t]"
    from Cons.prems task c Inr
    obtain ev2 where
      rec: "retry_loop env config slow_mode tasks ?acc' (h @ ?ev0 @ ev1) = (Inr nf, ev2)"
      by (auto simp: Let_def split: prod.splits)
    from Cons.IH [OF rec] obtain new where new: "nf = ?acc' @ new" "subseq new tasks"
      by blast
    show ?thesis
    proof (cases res)
      case RTrue
      with new task show ?thesis by auto
    next
      case (RTask t)
      with c Inr have "t = (repo, i, s)" by (auto dest: create_junk_file_record)
      with RTask new task show ?thesis by auto
    qed
  qed
qed

text \<open>
  C10. The list that a retry round returns is a subsequence of the list it was given:
  every record in it is one of the records handed in, unchanged and in the same order,
  since a failed \<open>create_junk_file\<close> returns the record of the operation it was called
  with (\<open>create_junk_file_record\<close>). A round adds no operation and alters none.
\<close>

theorem retry_round_subseq:
  assumes "retry_failed_files env failed_tasks config slow_mode h = (Inr new_failures, ev)"
  shows "subseq new_failures failed_tasks \<and> set new_failures \<subseteq> set failed_tasks"
proof -
  from assms obtain new where "new_failures = [] @ new" and "subseq new failed_tasks"
    unfolding retry_failed_files_def by (blast dest: retry_loop_acc)
  then have "subseq new_failures failed_tasks" by simp
  moreover from this have "set new_failures \<subseteq> set failed_tasks"
    by (auto dest: list_emb_set)
  ultimately show ?thesis by simp
qed

theorem retry_round_subseq_witness:
  "retry_failed_files remote_second_fails [(Repo ''r'', 1, 5), (Repo ''r'', 2, 5)] Map.empty
       False []
     = (Inr [(Repo ''r'', 2, 5)],
        [Call (Create_file (Repo ''r'') ''junk-1.txt''
                 ''Add/Update file junk-1.txt with junk content'' 5),
         Print (Created_file ''junk-1.txt'' ''r''),
         Call (Create_file (Repo ''r'') ''junk-2.txt''
                 ''Add/Update file junk-2.txt with junk content'' 5),
         Print (Error_creating_file ''junk-2.txt'' ''r'' (GithubException 500))])
   \<and> subseq [(Repo ''r'', 2, 5)] [(Repo ''r'', 1, 5), (Repo ''r'', 2, 5) :: task]
   \<and> set [(Repo ''r'', 2, 5)] \<subseteq> set [(Repo ''r'', 1, 5), (Repo ''r'', 2, 5) :: task]"
proof -
  have run: "retry_failed_files remote_second_fails [(Repo ''r'', 1, 5), (Repo ''r'', 2, 5)]
       Map.empty False []
     = (Inr [(Repo ''r'', 2, 5)],
        [Call (Create_file (Repo ''r'') ''junk-1.txt''
                 ''Add/Update file junk-1.txt with junk content'' 5),
         Print (Created_file ''junk-1.txt'' ''r''),
         Call (Create_file (Repo ''r'') ''junk-2.txt''
                 ''Add/Update file junk-2.txt with junk content'' 5),
         Print (Error_creating_file ''junk-2.txt'' ''r'' (GithubException 500))])"
    by code_simp
  from retry_round_subseq [OF run] run show ?thesis by (rule conjI [rotated])
qed

section \<open>The global retry\<close>

lemma create_junk_file_no_success_print:
  "create_junk_file env repo i s config h = (r, ev) \<Longrightarrow> Print All_succeeded_on_retry \<notin> set ev"
  by (auto simp: create_junk_file_def Let_def split: sum.splits exn.splits if_splits)

lemma retry_loop_events:
  "retry_loop env config slow_mode tasks acc h = (r, ev) \<Longrightarrow>
     filter is_round_start ev = [] \<and> Print All_succeeded_on_retry \<notin> set ev"
proof (induction tasks arbitrary: acc h r ev)
  case Nil
  then show ?case by simp
next
  case (Cons task tasks)
  obtain repo i s where task: "task = (repo, i, s)" by (cases task) auto
  let ?ev0 = "if slow_mode then [Sleep 1] else []"
  obtain r1 ev1 where c: "create_junk_file env repo i s config (h @ ?ev0) = (r1, ev1)"
    by (cases "create_junk_file env repo i s config (h @ ?ev0)") auto
  from c have ev1: "filter is_round_start ev1 = []" "Print All_succeeded_on_retry \<notin> set ev1"
    by (auto dest: create_junk_file_no_round_start create_junk_file_no_success_print)
  show ?case
  proof (cases r1)
    case (Inl e)
    with Cons.prems task c ev1 show ?thesis by auto
  next
    case (Inr res)
    let ?acc' = "case res of RTrue \<Rightarrow> acc | RTask t \<Rightarrow> acc @ [t]"
    obtain r2 ev2 where
      rec: "retry_loop env config slow_mode tasks ?acc' (h @ ?ev0 @ ev1) = (r2, ev2)"
      by (cases "retry_loop env config slow_mode tasks ?acc' (h @ ?ev0 @ ev1)") auto
    from Cons.IH [OF rec]
    have ev2: "filter is_round_start ev2 = []" "Print All_succeeded_on_retry \<notin> set ev2"
      by auto
    from Cons.prems task c Inr rec have "ev = ?ev0 @ ev1 @ ev2"
      by (auto simp: Let_def)
    with ev1 ev2 show ?thesis by auto
  qed
qed

lemma set_butlast_append: "set (butlast (xs @ ys)) \<subseteq> set xs \<union> set (butlast ys)"
  by (auto simp: butlast_append dest: in_set_butlastD)

lemma retry_rounds_props:
  "retry_rounds env config slow_mode attempts gff h = (Inr final, ev) \<Longrightarrow>
     rounds ev \<le> length attempts
     \<and> (final \<noteq> [] \<longrightarrow> rounds ev = length attempts)
     \<and> Print All_succeeded_on_retry \<notin> set (butlast ev)
     \<and> (final = [] \<and> gff \<noteq> [] \<longrightarrow> ev \<noteq> [] \<and> last ev = Print All_succeeded_on_retry)
     \<and> (final \<noteq> [] \<longrightarrow> Print All_succeeded_on_retry \<notin> set ev)"
proof (induction attempts arbitrary: gff h final ev)
  case Nil
  then show ?case by (simp add: rounds_def)
next
  case (Cons attempt attempts)
  let ?ev0 = "[Print (Retry_attempt (attempt + 1))]"
  obtain r1 ev1 where
    round: "retry_failed_files env gff config slow_mode (h @ ?ev0) = (r1, ev1)"
    by (cases "retry_failed_files env gff config slow_mode (h @ ?ev0)") auto
  then have ev1: "filter is_round_start ev1 = []" "Print All_succeeded_on_retry \<notin> set ev1"
    unfolding retry_failed_files_def by (auto dest: retry_loop_events)
  show ?case
  proof (cases r1)
    case (Inl e)
    with Cons.prems round show ?thesis by simp
  next
    case (Inr gff')
    show ?thesis
    proof (cases "gff' = []")
      case True
      with Cons.prems round Inr
      have "final = []" and "ev = ?ev0 @ ev1 @ [Print All_succeeded_on_retry]"
        by auto
      with ev1 show ?thesis
        by (simp add: rounds_def butlast_append)
    next
      case False
      let ?ev2 = "[Print (Still_failed (length gff')), Sleep RETRY_DELAY]"
      obtain r3 ev3 where
        rec: "retry_rounds env config slow_mode attempts gff' (h @ ?ev0 @ ev1 @ ?ev2) = (r3, ev3)"
        by (cases "retry_rounds env config slow_mode attempts gff' (h @ ?ev0 @ ev1 @ ?ev2)") auto
      with Cons.prems round Inr False
      have r3: "r3 = Inr final" and ev: "ev = (?ev0 @ ev1 @ ?ev2) @ ev3"
        by (auto simp: Let_def)
      from Cons.IH [OF rec [unfolded r3]]
      have ih: "rounds ev3 \<le> length attempts"
        "final \<noteq> [] \<longrightarrow> rounds ev3 = length attempts"
        "Print All_succeeded_on_retry \<notin> set (butlast ev3)"
        "final = [] \<and> gff' \<noteq> [] \<longrightarrow> ev3 \<noteq> [] \<and> last ev3 = Print All_succeeded_on_retry"
        "final \<noteq> [] \<longrightarrow> Print All_succeeded_on_retry \<notin> set ev3"
        by auto
      have pre: "Print All_succeeded_on_retry \<notin> set (?ev0 @ ev1 @ ?ev2)"
        using ev1 by simp
      have r: "rounds ev = Suc (rounds ev3)"
        using ev ev1 by (simp add: rounds_def)
      have b: "Print All_succeeded_on_retry \<notin> set (butlast ev)"
        using pre ih(3) set_butlast_append [of "?ev0 @ ev1 @ ?ev2" ev3] unfolding ev by blast
      have l: "final = [] \<longrightarrow> ev \<noteq> [] \<and> last ev = Print All_succeeded_on_retry"
        using ih(4) False unfolding ev by simp
      have n: "final \<noteq> [] \<longrightarrow> Print All_succeeded_on_retry \<notin> set ev"
        using pre ih(5) unfolding ev by auto
      from r ih(1,2) b l n show ?thesis by simp
    qed
  qed
qed

text \<open>
  A remote whose reads and updates raise nothing but \<open>GithubException\<close>: on it
  \<open>create_junk_file\<close> always returns, and so do the retry round and the global retry.
\<close>

lemma create_junk_file_returns:
  assumes "\<forall>h r p text. get_contents env h r p \<noteq> Inl (Exception text)"
    and "\<forall>h r p m s sha text. update_file env h r p m s sha \<noteq> Inl (Exception text)"
  shows "\<exists>res ev. create_junk_file env repo i s config h = (Inr res, ev)"
proof (cases "create_junk_file env repo i s config h")
  case (Pair r ev)
  show ?thesis
  proof (cases r)
    case (Inl e)
    with Pair assms show ?thesis
      by (auto simp: create_junk_file_def Let_def split: sum.splits exn.splits if_splits)
  next
    case (Inr res)
    with Pair show ?thesis by simp
  qed
qed

lemma retry_loop_returns:
  assumes "\<forall>h r p text. get_contents env h r p \<noteq> Inl (Exception text)"
    and "\<forall>h r p m s sha text. update_file env h r p m s sha \<noteq> Inl (Exception text)"
  shows "\<exists>fs ev. retry_loop env config slow_mode tasks acc h = (Inr fs, ev)"
proof (induction tasks arbitrary: acc h)
  case Nil
  show ?case by simp
next
  case (Cons task tasks)
  obtain repo i s where task: "task = (repo, i, s)" by (cases task) auto
  let ?ev0 = "if slow_mode then [Sleep 1] else []"
  from create_junk_file_returns [OF assms]
  obtain res ev1 where c: "create_junk_file env repo i s config (h @ ?ev0) = (Inr res, ev1)"
    by blast
  let ?acc' = "case res of RTrue \<Rightarrow> acc | RTask t \<Rightarrow> acc @ [t]"
  from Cons.IH obtain fs ev2 where
    "retry_loop env config slow_mode tasks ?acc' (h @ ?ev0 @ ev1) = (Inr fs, ev2)"
    by blast
  with task c show ?case by (simp add: Let_def)
qed

lemma retry_rounds_returns:
  assumes "\<forall>h r p text. get_contents env h r p \<noteq> Inl (Exception text)"
    and "\<forall>h r p m s sha text. update_file env h r p m s sha \<noteq> Inl (Exception text)"
  shows "\<exists>fs ev. retry_rounds env config slow_mode attempts gff h = (Inr fs, ev)"
proof (induction attempts arbitrary: gff h)
  case Nil
  show ?case by simp
next
  case (Cons attempt attempts)
  let ?ev0 = "[Print (Retry_attempt (attempt + 1))]"
  from retry_loop_returns [OF assms]
  obtain gff' ev1 where
    round: "retry_failed_files env gff config slow_mode (h @ ?ev0) = (Inr gff', ev1)"
    unfolding retry_failed_files_def by blast
  show ?case
  proof (cases "gff' = []")
    case True
    with round show ?thesis by simp
  next
    case False
    let ?ev2 = "[Print (Still_failed (length gff')), Sleep RETRY_DELAY]"
    from Cons.IH obtain fs ev3 where
      "retry_rounds env config slow_mode attempts gff' (h @ ?ev0 @ ev1 @ ?ev2) = (Inr fs, ev3)"
      by blast
    with round False show ?thesis by (simp add: Let_def)
  qed
qed

lemma global_retry_completes:
  assumes "\<forall>h r p text. get_contents env h r p \<noteq> Inl (Exception text)"
    and "\<forall>h r p m s sha text. update_file env h r p m s sha \<noteq> Inl (Exception text)"
  shows "\<exists>final ev. main_global_retry env config slow_mode global_failed_files h = (Inr final, ev)"
proof (cases "global_failed_files = []")
  case True
  then show ?thesis by (simp add: main_global_retry_def)
next
  case False
  let ?ev0 = "[Print (Retrying_after_delay (length global_failed_files) RETRY_DELAY),
               Sleep RETRY_DELAY]"
  from retry_rounds_returns [OF assms]
  obtain fs ev1 where
    "retry_rounds env config slow_mode (range_py 0 MAX_RETRIES) global_failed_files (h @ ?ev0)
       = (Inr fs, ev1)"
    by blast
  with False show ?thesis by (simp add: main_global_retry_def Let_def)
qed

lemma always_failing_run:
  "main_global_retry (remote_create_raises (GithubException 500)) Map.empty False
       [(Repo ''r'', 1, 2)] []
     = (Inr [(Repo ''r'', 1, 2)],
        [Print (Retrying_after_delay 1 5), Sleep 5,
         Print (Retry_attempt 1),
         Call (Create_file (Repo ''r'') ''junk-1.txt''
                 ''Add/Update file junk-1.txt with junk content'' 2),
         Print (Error_creating_file ''junk-1.txt'' ''r'' (GithubException 500)),
         Print (Still_failed 1), Sleep 5,
         Print (Retry_attempt 2),
         Call (Create_file (Repo ''r'') ''junk-1.txt''
                 ''Add/Update file junk-1.txt with junk content'' 2),
         Print (Error_creating_file ''junk-1.txt'' ''r'' (GithubException 500)),
         Print (Still_failed 1), Sleep 5,
         Print (Retry_attempt 3),
         Call (Create_file (Repo ''r'') ''junk-1.txt''
                 ''Add/Update file junk-1.txt with junk content'' 2),
         Print (Error_creating_file ''junk-1.txt'' ''r'' (GithubException 500)),
         Print (Still_failed 1), Sleep 5,
         Print (After_retries_still_failed 3 1)])"
  by code_simp

text \<open>
  When the global retry of \<open>main\<close> returns, either the remaining failure list is
  empty, or exactly \<open>MAX_RETRIES = 3\<close> rounds were run and the last thing done is to
  print the remaining count as failed after the retries. No run has more than three
  rounds, and the line that reports a round with nothing left is never followed by
  anything.
\<close>

lemma global_retry_bounded:
  assumes "main_global_retry env config slow_mode global_failed_files h = (Inr final, ev)"
  shows "MAX_RETRIES = 3
     \<and> (final = [] \<or>
          (rounds ev = 3 \<and>
           last ev = Print (After_retries_still_failed 3 (length final))))
     \<and> rounds ev \<le> 3
     \<and> Print All_succeeded_on_retry \<notin> set (butlast ev)
     \<and> (final = [] \<and> global_failed_files \<noteq> [] \<longrightarrow>
          last ev = Print All_succeeded_on_retry)"
proof (cases "global_failed_files = []")
  case True
  with assms have "final = []" and "ev = [Print All_succeeded_first_pass]"
    by (auto simp: main_global_retry_def)
  with True show ?thesis by (simp add: rounds_def MAX_RETRIES_def)
next
  case False
  let ?ev0 = "[Print (Retrying_after_delay (length global_failed_files) RETRY_DELAY),
               Sleep RETRY_DELAY]"
  have len: "length (range_py 0 MAX_RETRIES) = 3"
    by (simp add: range_py_def MAX_RETRIES_def)
  obtain r1 ev1 where
    loop: "retry_rounds env config slow_mode (range_py 0 MAX_RETRIES) global_failed_files
             (h @ ?ev0) = (r1, ev1)"
    by (cases "retry_rounds env config slow_mode (range_py 0 MAX_RETRIES) global_failed_files
                 (h @ ?ev0)") auto
  with assms False have r1: "r1 = Inr final"
    by (auto simp: main_global_retry_def Let_def split: sum.splits if_splits)
  from retry_rounds_props [OF loop [unfolded r1]] len
  have p: "rounds ev1 \<le> 3" "final \<noteq> [] \<longrightarrow> rounds ev1 = 3"
    "Print All_succeeded_on_retry \<notin> set (butlast ev1)"
    "final = [] \<longrightarrow> ev1 \<noteq> [] \<and> last ev1 = Print All_succeeded_on_retry"
    "final \<noteq> [] \<longrightarrow> Print All_succeeded_on_retry \<notin> set ev1"
    using False by auto
  show ?thesis
  proof (cases "final = []")
    case True
    with assms False loop r1 have ev: "ev = ?ev0 @ ev1"
      by (auto simp: main_global_retry_def Let_def)
    have "rounds ev = rounds ev1" unfolding ev by (simp add: rounds_def)
    moreover have "Print All_succeeded_on_retry \<notin> set (butlast ev)"
      using p(3) set_butlast_append [of ?ev0 ev1] unfolding ev by auto
    moreover have "last ev = Print All_succeeded_on_retry"
      using p(4) True unfolding ev by simp
    ultimately show ?thesis using True p(1) by (simp add: MAX_RETRIES_def)
  next
    case nonempty: False
    with assms False loop r1
    have ev: "ev = (?ev0 @ ev1) @ [Print (After_retries_still_failed (nat MAX_RETRIES)
                                          (length final))]"
      by (auto simp: main_global_retry_def Let_def)
    have "rounds ev = rounds ev1" unfolding ev by (simp add: rounds_def)
    moreover have "Print All_succeeded_on_retry \<notin> set (butlast ev)"
      using p(5) nonempty unfolding ev by (simp add: butlast_append)
    moreover have "last ev = Print (After_retries_still_failed 3 (length final))"
      unfolding ev by (simp add: MAX_RETRIES_def)
    ultimately show ?thesis using nonempty p(2) by (simp add: MAX_RETRIES_def)
  qed
qed

lemma global_retry_bounded_example:
  "main_global_retry (remote_create_raises (GithubException 500)) Map.empty False
       [(Repo ''r'', 1, 2)] []
     = (Inr [(Repo ''r'', 1, 2)],
        snd (main_global_retry (remote_create_raises (GithubException 500)) Map.empty False
               [(Repo ''r'', 1, 2)] []))
   \<and> rounds (snd (main_global_retry (remote_create_raises (GithubException 500)) Map.empty
                     False [(Repo ''r'', 1, 2)] [])) = 3
   \<and> last (snd (main_global_retry (remote_create_raises (GithubException 500)) Map.empty
                   False [(Repo ''r'', 1, 2)] []))
       = Print (After_retries_still_failed 3 1)"
proof -
  let ?run = "main_global_retry (remote_create_raises (GithubException 500)) Map.empty False
                [(Repo ''r'', 1, 2)] []"
  have run: "?run = (Inr [(Repo ''r'', 1, 2)], snd ?run)"
    by (simp add: always_failing_run)
  have "[(Repo ''r'', 1, 2)] \<noteq> ([] :: task list)"
    by simp
  with global_retry_bounded [OF run]
  have "rounds (snd ?run) = 3 \<and>
        last (snd ?run) = Print (After_retries_still_failed 3 (length [(Repo ''r'', 1, 2) :: task]))"
    by blast
  then have "rounds (snd ?run) = 3 \<and> last (snd ?run) = Print (After_retries_still_failed 3 1)"
    by simp
  with run show ?thesis by blast
qed

text \<open>
  One turn of the loop over the rounds. A round that leaves the list empty ends the
  loop at once, whatever rounds were still to come; a round that leaves it non-empty
  is followed by the count, the wait and the remaining rounds on the new list; an
  exception of the round ends the loop and leaves it.
\<close>

lemma retry_rounds_stops_when_empty:
  assumes "retry_failed_files env gff config slow_mode (h @ [Print (Retry_attempt (attempt + 1))])
             = (Inr [], ev1)"
  shows "retry_rounds env config slow_mode (attempt # attempts) gff h
     = (Inr [], [Print (Retry_attempt (attempt + 1))] @ ev1 @ [Print All_succeeded_on_retry])"
  using assms by simp

lemma retry_rounds_goes_on:
  assumes "retry_failed_files env gff config slow_mode (h @ [Print (Retry_attempt (attempt + 1))])
             = (Inr gff', ev1)"
    and "gff' \<noteq> []"
    and "retry_rounds env config slow_mode attempts gff'
           (h @ [Print (Retry_attempt (attempt + 1))] @ ev1
              @ [Print (Still_failed (length gff')), Sleep RETRY_DELAY]) = (r, ev3)"
  shows "retry_rounds env config slow_mode (attempt # attempts) gff h
     = (r, [Print (Retry_attempt (attempt + 1))] @ ev1
           @ [Print (Still_failed (length gff')), Sleep RETRY_DELAY] @ ev3)"
  using assms by simp

lemma retry_rounds_raises:
  assumes "retry_failed_files env gff config slow_mode (h @ [Print (Retry_attempt (attempt + 1))])
             = (Inl err, ev1)"
  shows "retry_rounds env config slow_mode (attempt # attempts) gff h
     = (Inl err, [Print (Retry_attempt (attempt + 1))] @ ev1)"
  using assms by simp

text \<open>
  C1. The statement holds of every run of the global retry that returns
  (\<open>global_retry_bounded\<close>), and the run returns on every remote whose reads and
  updates raise nothing but \<open>GithubException\<close> (\<open>global_retry_completes\<close>). It does
  not hold of every failure list: when \<open>create_junk_file\<close> raises, as in C3, nothing
  in \<open>retry_failed_files\<close> or in \<open>main\<close> catches the exception. Here the run ends
  in its first round by that exception, with both operations still failed, no second
  or third round and no report of what remains.
\<close>

theorem global_retry_aborted:
  "main_global_retry (remote_conflict (Inl (Exception ''Connection reset''))) Map.empty False
       [(Repo ''r'', 1, 2), (Repo ''r'', 2, 2)] []
     = (Inl (Exception ''Connection reset''),
        [Print (Retrying_after_delay 2 5), Sleep 5,
         Print (Retry_attempt 1),
         Call (Create_file (Repo ''r'') ''junk-1.txt''
                 ''Add/Update file junk-1.txt with junk content'' 2),
         Call (Get_contents (Repo ''r'') ''junk-1.txt''),
         Call (Update_file (Repo ''r'') ''junk-1.txt''
                 ''Add/Update file junk-1.txt with junk content'' 2 ''sha'')])"
  by code_simp

section \<open>The rate-limit branch\<close>

lemma python_forbidden_run:
  "python_create_junk_file (remote_create_raises (GithubException 403)) (Repo ''r'') 1 2
       Map.empty []
     = (Inr (),
        [Call (Create_file (Repo ''r'') ''junk-1.txt''
                 ''Add/Update file junk-1.txt with junk content'' 2),
         Print (Forbidden_403 ''junk-1.txt'' ''r'' (GithubException 403)),
         Print (Waiting_before_retrying 60), Sleep 60,
         Call (Get_contents (Repo ''r'') ''junk-1.txt''),
         Call (Update_file (Repo ''r'') ''junk-1.txt''
                 ''Add/Update file junk-1.txt with junk content'' 2 ''sha''),
         Print (Updated_file_after_delay ''junk-1.txt'' ''r'')])"
  by code_simp

text \<open>
  C2, as stated, fails on \<^verbatim>\<open>repo/python.py\<close>: there \<open>create_junk_file\<close>, after the
  wait of 60, reads the file and updates it in the same pass, and returns nothing.
\<close>

theorem python_forbidden_retries_inline:
  "fst (python_create_junk_file (remote_create_raises (GithubException 403)) (Repo ''r'') 1 2
          Map.empty []) = Inr ()
   \<and> item_calls (dropWhile (\<lambda>e. e \<noteq> Sleep 60)
        (snd (python_create_junk_file (remote_create_raises (GithubException 403)) (Repo ''r'')
                1 2 Map.empty [])))
       = [Call (Get_contents (Repo ''r'') ''junk-1.txt''),
          Call (Update_file (Repo ''r'') ''junk-1.txt''
                  ''Add/Update file junk-1.txt with junk content'' 2 ''sha'')]"
  by (simp add: python_forbidden_run item_calls_def)

section \<open>The conflict branch\<close>

text \<open>
  On status 409 the function reads the file once and, when that gives a sha, updates
  once with that sha. A successful update counts as success; a \<open>GithubException\<close> of
  the read or of the update gives the record of the operation.
\<close>

lemma conflict_update_succeeds:
  assumes "create_file env h repo (file_name_of config i) (commit_message_of (file_name_of config i)) s
             = Inl (GithubException 409)"
    and "get_contents env (h @ [create_call config (repo, i, s)]) repo (file_name_of config i)
             = Inr sha"
    and "update_file env
           (h @ [create_call config (repo, i, s), Call (Get_contents repo (file_name_of config i))])
           repo (file_name_of config i) (commit_message_of (file_name_of config i)) s sha = Inr ()"
  shows "create_junk_file env repo i s config h
     = (Inr RTrue,
        [create_call config (repo, i, s), Call (Get_contents repo (file_name_of config i)),
         Call (Update_file repo (file_name_of config i) (commit_message_of (file_name_of config i))
                 s sha),
         Print (Updated_file (file_name_of config i) (name repo))])"
  using assms by (simp add: create_junk_file_def create_call_def Let_def)

lemma conflict_update_github_error:
  assumes "create_file env h repo (file_name_of config i) (commit_message_of (file_name_of config i)) s
             = Inl (GithubException 409)"
    and "get_contents env (h @ [create_call config (repo, i, s)]) repo (file_name_of config i)
             = Inr sha"
    and "update_file env
           (h @ [create_call config (repo, i, s), Call (Get_contents repo (file_name_of config i))])
           repo (file_name_of config i) (commit_message_of (file_name_of config i)) s sha
             = Inl (GithubException status)"
  shows "create_junk_file env repo i s config h
     = (Inr (RTask (repo, i, s)),
        [create_call config (repo, i, s), Call (Get_contents repo (file_name_of config i)),
         Call (Update_file repo (file_name_of config i) (commit_message_of (file_name_of config i))
                 s sha),
         Print (Error_updating_file (file_name_of config i) (name repo) (GithubException status))])"
  using assms by (simp add: create_junk_file_def create_call_def Let_def)

lemma conflict_read_github_error:
  assumes "create_file env h repo (file_name_of config i) (commit_message_of (file_name_of config i)) s
             = Inl (GithubException 409)"
    and "get_contents env (h @ [create_call config (repo, i, s)]) repo (file_name_of config i)
             = Inl (GithubException status)"
  shows "create_junk_file env repo i s config h
     = (Inr (RTask (repo, i, s)),
        [create_call config (repo, i, s), Call (Get_contents repo (file_name_of config i)),
         Print (Error_updating_file (file_name_of config i) (name repo) (GithubException status))])"
  using assms by (simp add: create_junk_file_def create_call_def Let_def)

text \<open>
  What leaves \<open>create_junk_file\<close> as an exception is never a \<open>GithubException\<close>, and
  it comes from the read or the update of the 409 branch.
\<close>

lemma create_junk_file_raises:
  assumes "create_junk_file env repo i s config h = (Inl e, ev)"
  shows "(\<exists>text. e = Exception text)
     \<and> create_file env h repo (file_name_of config i) (commit_message_of (file_name_of config i)) s
         = Inl (GithubException 409)
     \<and> (\<exists>c. last ev = Call c \<and> c \<noteq> Create_file repo (file_name_of config i)
                                      (commit_message_of (file_name_of config i)) s)"
  using assms
  by (auto simp: create_junk_file_def Let_def split: sum.splits exn.splits if_splits)

text \<open>
  C3. The claim holds as long as the read and the update fail with a
  \<open>GithubException\<close> only. When the update of the 409 branch raises any other
  exception (here a dropped connection), \<open>create_junk_file\<close> returns no record: the
  exception leaves the function.
\<close>

theorem conflict_update_other_exception_escapes:
  "create_junk_file (remote_conflict (Inl (Exception ''Connection reset''))) (Repo ''r'') 1 2
       Map.empty []
     = (Inl (Exception ''Connection reset''),
        [Call (Create_file (Repo ''r'') ''junk-1.txt''
                 ''Add/Update file junk-1.txt with junk content'' 2),
         Call (Get_contents (Repo ''r'') ''junk-1.txt''),
         Call (Update_file (Repo ''r'') ''junk-1.txt''
                 ''Add/Update file junk-1.txt with junk content'' 2 ''sha'')])"
  by code_simp

section \<open>The retry round, run to its end or not\<close>

text \<open>
  The calls that create files, made by a retry round, are those of the operations of
  the list, in the order of the list, up to the operation at which the round stopped;
  a round that returns has made all of them.
\<close>

lemma retry_loop_create_calls:
  "retry_loop env config slow_mode tasks acc h = (r, ev) \<Longrightarrow>
     prefix (filter is_create_call ev) (map (create_call config) tasks)
     \<and> ((\<exists>fs. r = Inr fs) \<longrightarrow> filter is_create_call ev = map (create_call config) tasks)"
proof (induction tasks arbitrary: acc h r ev)
  case Nil
  then show ?case by simp
next
  case (Cons task tasks)
  obtain repo i s where task: "task = (repo, i, s)" by (cases task) auto
  let ?ev0 = "if slow_mode then [Sleep 1] else []"
  obtain r1 ev1 where c: "create_junk_file env repo i s config (h @ ?ev0) = (r1, ev1)"
    by (cases "create_junk_file env repo i s config (h @ ?ev0)") auto
  from c have ev1: "filter is_create_call ev1 = [create_call config task]"
    unfolding task by (rule create_junk_file_create_calls)
  show ?case
  proof (cases r1)
    case (Inl e)
    with Cons.prems task c have "r = Inl e" and "ev = ?ev0 @ ev1" by auto
    with ev1 show ?thesis by simp
  next
    case (Inr res)
    let ?acc' = "case res of RTrue \<Rightarrow> acc | RTask t \<Rightarrow> acc @ [t]"
    obtain r2 ev2 where
      rec: "retry_loop env config slow_mode tasks ?acc' (h @ ?ev0 @ ev1) = (r2, ev2)"
      by (cases "retry_loop env config slow_mode tasks ?acc' (h @ ?ev0 @ ev1)") auto
    from Cons.prems task c Inr rec have r: "r = r2" and ev: "ev = ?ev0 @ ev1 @ ev2"
      by (auto simp: Let_def)
    from Cons.IH [OF rec] r ev ev1 show ?thesis by simp
  qed
qed

text \<open>
  C8. A round is a loop in one thread: its calls never overlap and follow the order of
  the list (\<open>retry_loop_create_calls\<close>). It does not attempt every operation, though:
  when \<open>create_junk_file\<close> raises, as in C3, the round ends there and the operations
  behind it are not attempted. Here the second operation is never attempted.
\<close>

theorem retry_round_aborted:
  "retry_failed_files (remote_conflict (Inl (Exception ''Connection reset'')))
       [(Repo ''r'', 1, 2), (Repo ''r'', 2, 2)] Map.empty False []
     = (Inl (Exception ''Connection reset''),
        [Call (Create_file (Repo ''r'') ''junk-1.txt''
                 ''Add/Update file junk-1.txt with junk content'' 2),
         Call (Get_contents (Repo ''r'') ''junk-1.txt''),
         Call (Update_file (Repo ''r'') ''junk-1.txt''
                 ''Add/Update file junk-1.txt with junk content'' 2 ''sha'')])"
  by code_simp

section \<open>The dispatcher\<close>

text \<open>
  C4. \<open>process_repo\<close> itself cannot raise (its result is a list in every case), but
  it does not turn every failure into a record. Here both operations fail, the first
  by a dropped connection during the update of the 409 branch, the second with status
  500: the exception of the first ends the collecting loop, is reported as a failure to
  create the repository, and the list returned is empty.
\<close>

theorem dispatcher_loses_failures:
  "process_repo remote_mixed id 1 2 5 Map.empty False []
     = ([],
        [Call (Create_repo ''junk-repo-1'' ''Repository filled with junk content'' False),
         Print (Created_repository ''junk-repo-1''),
         Call (Create_file (Repo ''junk-repo-1'') ''junk-1.txt''
                 ''Add/Update file junk-1.txt with junk content'' 5),
         Call (Get_contents (Repo ''junk-repo-1'') ''junk-1.txt''),
         Call (Update_file (Repo ''junk-repo-1'') ''junk-1.txt''
                 ''Add/Update file junk-1.txt with junk content'' 5 ''sha''),
         Call (Create_file (Repo ''junk-repo-1'') ''junk-2.txt''
                 ''Add/Update file junk-2.txt with junk content'' 5),
         Print (Error_creating_file ''junk-2.txt'' ''junk-repo-1'' (GithubException 500)),
         Print (Error_creating_repository ''junk-repo-1'' (Exception ''Connection reset''))])"
  by code_simp

text \<open>
  C5. With a list that stays non-empty, the run waits \<open>RETRY_DELAY = 5\<close> once more
  after the third and last round, before it prints the final report.
\<close>

theorem delay_after_final_round:
  "dropWhile (\<lambda>e. e \<noteq> Print (Retry_attempt 3))
     (snd (main_global_retry (remote_create_raises (GithubException 500)) Map.empty False
             [(Repo ''r'', 1, 2)] []))
     = [Print (Retry_attempt 3),
        Call (Create_file (Repo ''r'') ''junk-1.txt''
                ''Add/Update file junk-1.txt with junk content'' 2),
        Print (Error_creating_file ''junk-1.txt'' ''r'' (GithubException 500)),
        Print (Still_failed 1), Sleep 5,
        Print (After_retries_still_failed 3 1)]"
  by (simp add: always_failing_run)

lemma global_retry_nothing_to_do:
  "main_global_retry env config slow_mode [] h = (Inr [], [Print All_succeeded_first_pass])"
  by (simp add: main_global_retry_def)

lemma global_retry_first_wait:
  assumes "global_failed_files \<noteq> []"
    and "main_global_retry env config slow_mode global_failed_files h = (r, ev)"
  shows "take 3 ev = [Print (Retrying_after_delay (length global_failed_files) 5), Sleep 5,
                      Print (Retry_attempt 1)]"
proof -
  have "range_py 0 MAX_RETRIES = [0, 1, 2]"
    by (simp add: range_py_def MAX_RETRIES_def upto.simps)
  with assms show ?thesis
    by (auto simp: main_global_retry_def Let_def RETRY_DELAY_def
        split: prod.splits sum.splits if_splits)
qed

text \<open>
  Every round that leaves the list non-empty ends with the count of what still failed
  and a wait of \<open>RETRY_DELAY\<close>, whether or not another round follows.
\<close>

lemma retry_rounds_trailing_wait:
  assumes "retry_rounds env config slow_mode attempts gff h = (Inr final, ev)"
    and "attempts \<noteq> []" and "final \<noteq> []"
  shows "\<exists>pre. ev = pre @ [Print (Still_failed (length final)), Sleep RETRY_DELAY]"
  using assms
proof (induction attempts arbitrary: gff h ev)
  case Nil
  then show ?case by simp
next
  case (Cons attempt attempts)
  let ?ev0 = "[Print (Retry_attempt (attempt + 1))]"
  obtain r1 ev1 where
    round: "retry_failed_files env gff config slow_mode (h @ ?ev0) = (r1, ev1)"
    by (cases "retry_failed_files env gff config slow_mode (h @ ?ev0)") auto
  show ?case
  proof (cases r1)
    case (Inl e)
    with Cons.prems round show ?thesis by simp
  next
    case (Inr gff')
    with Cons.prems round have ne: "gff' \<noteq> []" by (auto split: if_splits)
    let ?ev2 = "[Print (Still_failed (length gff')), Sleep RETRY_DELAY]"
    obtain r3 ev3 where
      rec: "retry_rounds env config slow_mode attempts gff' (h @ ?ev0 @ ev1 @ ?ev2) = (r3, ev3)"
      by (cases "retry_rounds env config slow_mode attempts gff' (h @ ?ev0 @ ev1 @ ?ev2)") auto
    with Cons.prems round Inr ne
    have r3: "r3 = Inr final" and ev: "ev = ?ev0 @ ev1 @ ?ev2 @ ev3"
      by (auto simp: Let_def)
    show ?thesis
    proof (cases attempts)
      case Nil
      with rec r3 have "final = gff'" and "ev3 = []" by auto
      with ev show ?thesis by simp
    next
      case (Cons a as)
      with Cons.IH [OF rec [unfolded r3]] Cons.prems(3)
      obtain pre where "ev3 = pre @ [Print (Still_failed (length final)), Sleep RETRY_DELAY]"
        by blast
      with ev show ?thesis by simp
    qed
  qed
qed

lemma global_retry_trailing_wait:
  assumes "main_global_retry env config slow_mode global_failed_files h = (Inr final, ev)"
    and "final \<noteq> []"
  shows "\<exists>pre. ev = pre @ [Print (Still_failed (length final)), Sleep RETRY_DELAY,
                          Print (After_retries_still_failed (nat MAX_RETRIES) (length final))]"
proof -
  have ne: "range_py 0 MAX_RETRIES \<noteq> []"
    by (simp add: range_py_def MAX_RETRIES_def upto.simps)
  from assms have gff: "global_failed_files \<noteq> []"
    by (auto simp: main_global_retry_def)
  let ?ev0 = "[Print (Retrying_after_delay (length global_failed_files) RETRY_DELAY),
               Sleep RETRY_DELAY]"
  obtain r1 ev1 where
    loop: "retry_rounds env config slow_mode (range_py 0 MAX_RETRIES) global_failed_files
             (h @ ?ev0) = (r1, ev1)"
    by (cases "retry_rounds env config slow_mode (range_py 0 MAX_RETRIES) global_failed_files
                 (h @ ?ev0)") auto
  with assms gff have r1: "r1 = Inr final"
    and ev: "ev = ?ev0 @ ev1 @ [Print (After_retries_still_failed (nat MAX_RETRIES)
                                         (length final))]"
    by (auto simp: main_global_retry_def Let_def split: sum.splits if_splits)
  from retry_rounds_trailing_wait [OF loop [unfolded r1] ne assms(2)]
  obtain pre where "ev1 = pre @ [Print (Still_failed (length final)), Sleep RETRY_DELAY]"
    by blast
  with ev have "ev = (?ev0 @ pre) @ [Print (Still_failed (length final)), Sleep RETRY_DELAY,
                          Print (After_retries_still_failed (nat MAX_RETRIES) (length final))]"
    by simp
  then show ?thesis by blast
qed

text \<open>
  C6. In \<^verbatim>\<open>repo/python.py\<close>, fast mode and no file to create: the pool is asked for
  \<open>max_workers = 0\<close>, which raises, and nothing in \<open>main\<close> catches it.
\<close>

theorem python_empty_batch_raises:
  "python_main_files remote_ok id (Repo ''r'') 0 5 Map.empty False []
     = (Inl (Exception ''max_workers must be greater than 0''), [])"
  by code_simp

text \<open>An empty batch in \<^verbatim>\<open>org/pyhon.py\<close>: the repository is asked for, no call on a file
  is made and the list returned is empty, in both modes.\<close>

lemma process_repo_empty_batch:
  assumes "sched [] = []"
    and "process_repo env sched repo_index 0 file_size config slow_mode h = (failed_files, ev)"
  shows "failed_files = [] \<and> item_calls ev = []
     \<and> hd ev = Call (Create_repo (repo_name_of config repo_index) (repo_description_of config)
                        (private_repo_of config))"
  using assms
  by (auto simp: process_repo_def Let_def ThreadPoolExecutor_def max_workers_files_def
      range_py_def item_calls_def split: sum.splits if_splits)

lemma python_empty_batch_slow:
  assumes "sched [] = []"
  shows "python_main_files env sched repo 0 file_size config True h = (Inr (), [])"
  using assms
  by (simp add: python_main_files_def ThreadPoolExecutor_def python_max_workers_def range_py_def)

section \<open>A batch without failures\<close>

lemma create_junk_file_ok:
  assumes "create_file env h repo (file_name_of config i) (commit_message_of (file_name_of config i)) s
             = Inr u"
  shows "create_junk_file env repo i s config h
     = (Inr RTrue, [create_call config (repo, i, s),
                    Print (Created_file (file_name_of config i) (name repo))])"
  using assms by (simp add: create_junk_file_def create_call_def Let_def)

lemma run_workers_ok:
  assumes "\<forall>h p m. create_file env h repo p m s = Inr ()"
  shows "run_workers env repo s config is h
     = (map (\<lambda>i. Inr RTrue) is,
        concat (map (\<lambda>i. [create_call config (repo, i, s),
                           Print (Created_file (file_name_of config i) (name repo))]) is))"
proof (induction "is" arbitrary: h)
  case Nil
  show ?case by simp
next
  case (Cons i "is")
  from assms have "create_junk_file env repo i s config h
     = (Inr RTrue, [create_call config (repo, i, s),
                    Print (Created_file (file_name_of config i) (name repo))])"
    by (intro create_junk_file_ok) simp
  with Cons.IH show ?case by simp
qed

lemma collect_results_ok:
  "collect_results (map (\<lambda>i. Inr RTrue) is) slow_mode failed_files
     = (None, failed_files, concat (map (\<lambda>i. if slow_mode then [Sleep 1] else []) is))"
  by (induction "is") auto

lemma item_calls_ok:
  "item_calls (concat (map (\<lambda>i. [create_call config (repo, i, s),
                                   Print (Created_file (file_name_of config i) (name repo))]) is))
     = map (\<lambda>i. create_call config (repo, i, s)) is"
  by (induction "is") (auto simp: item_calls_def create_call_def)

lemma item_calls_sleeps:
  "item_calls (concat (map (\<lambda>i. if slow_mode then [Sleep 1] else []) is)) = []"
  by (induction "is") (auto simp: item_calls_def)

lemma length_range_py: "0 \<le> n \<Longrightarrow> length (range_py 1 (n + 1)) = nat n"
  by (simp add: range_py_def)

text \<open>
  When the repository cannot be created the batch is given up: the dispatcher makes no
  call on a file and returns an empty list.
\<close>

lemma no_repository_no_item_calls:
  "process_repo remote_no_repo id 1 1 5 Map.empty False []
     = ([],
        [Call (Create_repo ''junk-repo-1'' ''Repository filled with junk content'' False),
         Print (Error_creating_repository ''junk-repo-1'' (GithubException 422))])"
  by code_simp

text \<open>
  C7. For every \<open>N \<ge> 0\<close>, with no failure injected (the repository is created and
  no call that creates a file fails), \<open>process_repo\<close> returns an empty list and its
  calls on files are exactly the \<open>N\<close> calls that create the files of the indices
  \<open>1..N\<close>, one for each index, in both modes and whatever the order in which the pool
  completes them.
\<close>

theorem dispatcher_all_succeed:
  assumes "0 \<le> num_files"
    and "create_repo env h (repo_name_of config repo_index) (repo_description_of config)
           (private_repo_of config) = Inr repo"
    and "\<forall>h' p m. create_file env h' repo p m file_size = Inr ()"
    and "mset (sched (range_py 1 (num_files + 1))) = mset (range_py 1 (num_files + 1))"
    and "process_repo env sched repo_index num_files file_size config slow_mode h
           = (failed_files, ev)"
  shows "failed_files = []
     \<and> mset (item_calls ev)
         = mset (map (\<lambda>i. create_call config (repo, i, file_size)) (range_py 1 (num_files + 1)))
     \<and> length (item_calls ev) = nat num_files"
proof (cases "max_workers_files slow_mode num_files \<le> 0")
  case True
  with assms(1) have n: "num_files = 0"
    by (auto simp: max_workers_files_def split: if_splits)
  from True assms(2,5) have "failed_files = []" and "item_calls ev = []"
    by (auto simp: process_repo_def Let_def ThreadPoolExecutor_def item_calls_def)
  with n show ?thesis by (simp add: range_py_def)
next
  case False
  let ?is = "sched (range_py 1 (num_files + 1))"
  let ?ev1 = "[Call (Create_repo (repo_name_of config repo_index) (repo_description_of config)
                       (private_repo_of config)),
               Print (Created_repository (repo_name_of config repo_index))]"
  let ?ev2 = "concat (map (\<lambda>i. [create_call config (repo, i, file_size),
                Print (Created_file (file_name_of config i) (name repo))]) ?is)"
  let ?ev3 = "concat (map (\<lambda>i. if slow_mode then [Sleep 1] else []) ?is)"
  have rw: "run_workers env repo file_size config ?is (h @ ?ev1)
      = (map (\<lambda>i. Inr RTrue) ?is, ?ev2)"
    by (rule run_workers_ok [OF assms(3)])
  have cr: "collect_results (map (\<lambda>i. Inr RTrue) ?is) slow_mode [] = (None, [], ?ev3)"
    by (rule collect_results_ok)
  from False assms(2,5)
  have res: "failed_files = []" and ev: "ev = ?ev1 @ ?ev2 @ ?ev3"
    by (simp_all add: process_repo_def Let_def ThreadPoolExecutor_def rw cr)
  have "item_calls ev = item_calls ?ev1 @ item_calls ?ev2 @ item_calls ?ev3"
    unfolding ev by (simp add: item_calls_def)
  also have "item_calls ?ev1 = []" by (simp add: item_calls_def)
  also have "item_calls ?ev2 = map (\<lambda>i. create_call config (repo, i, file_size)) ?is"
    by (rule item_calls_ok)
  also have "item_calls ?ev3 = []" by (rule item_calls_sleeps)
  finally have calls: "item_calls ev = map (\<lambda>i. create_call config (repo, i, file_size)) ?is"
    by simp
  have "mset (item_calls ev)
      = image_mset (\<lambda>i. create_call config (repo, i, file_size)) (mset ?is)"
    unfolding calls by simp
  also have "\<dots> = mset (map (\<lambda>i. create_call config (repo, i, file_size))
                        (range_py 1 (num_files + 1)))"
    unfolding assms(4) by simp
  finally have m: "mset (item_calls ev)
      = mset (map (\<lambda>i. create_call config (repo, i, file_size)) (range_py 1 (num_files + 1)))" .
  from m have "length (item_calls ev) = length (range_py 1 (num_files + 1))"
    by (metis length_map size_mset)
  with assms(1) have "length (item_calls ev) = nat num_files"
    by (simp add: length_range_py)
  with res m show ?thesis by simp
qed

theorem dispatcher_all_succeed_witness:
  "(0::int) \<le> 2
   \<and> create_repo remote_ok [] (repo_name_of Map.empty 1) (repo_description_of Map.empty)
        (private_repo_of Map.empty) = Inr (Repo ''junk-repo-1'')
   \<and> (\<forall>h' p m. create_file remote_ok h' (Repo ''junk-repo-1'') p m 5 = Inr ())
   \<and> mset (rev (range_py 1 (2 + 1))) = mset (range_py 1 (2 + 1))
   \<and> fst (process_repo remote_ok rev 1 2 5 Map.empty False []) = []
   \<and> mset (item_calls (snd (process_repo remote_ok rev 1 2 5 Map.empty False [])))
       = mset (map (\<lambda>i. create_call Map.empty (Repo ''junk-repo-1'', i, 5)) (range_py 1 (2 + 1)))
   \<and> length (item_calls (snd (process_repo remote_ok rev 1 2 5 Map.empty False []))) = 2"
proof -
  have h1: "(0::int) \<le> 2" by simp
  have h2: "create_repo remote_ok [] (repo_name_of Map.empty 1) (repo_description_of Map.empty)
        (private_repo_of Map.empty) = Inr (Repo ''junk-repo-1'')"
    by code_simp
  have h3: "\<forall>h' p m. create_file remote_ok h' (Repo ''junk-repo-1'') p m 5 = Inr ()"
    by (simp add: remote_ok_def)
  have h4: "mset (rev (range_py 1 (2 + 1))) = mset (range_py 1 (2 + 1))"
    by simp
  have h5: "process_repo remote_ok rev 1 2 5 Map.empty False []
      = (fst (process_repo remote_ok rev 1 2 5 Map.empty False []),
         snd (process_repo remote_ok rev 1 2 5 Map.empty False []))"
    by simp
  from dispatcher_all_succeed [OF h1 h2 h3 h4 h5]
  have "fst (process_repo remote_ok rev 1 2 5 Map.empty False []) = []
     \<and> mset (item_calls (snd (process_repo remote_ok rev 1 2 5 Map.empty False [])))
       = mset (map (\<lambda>i. create_call Map.empty (Repo ''junk-repo-1'', i, 5)) (range_py 1 (2 + 1)))
     \<and> length (item_calls (snd (process_repo remote_ok rev 1 2 5 Map.empty False []))) = 2"
    by simp
  with h1 h2 h3 h4 show ?thesis by blast
qed

lemma all_succeed_run:
  "process_repo remote_ok rev 1 2 5 Map.empty False []
     = ([],
        [Call (Create_repo ''junk-repo-1'' ''Repository filled with junk content'' False),
         Print (Created_repository ''junk-repo-1''),
         Call (Create_file (Repo ''junk-repo-1'') ''junk-2.txt''
                 ''Add/Update file junk-2.txt with junk content'' 5),
         Print (Created_file ''junk-2.txt'' ''junk-repo-1''),
         Call (Create_file (Repo ''junk-repo-1'') ''junk-1.txt''
                 ''Add/Update file junk-1.txt with junk content'' 5),
         Print (Created_file ''junk-1.txt'' ''junk-repo-1'')])"
  by code_simp

section \<open>The width of the pool\<close>

lemma pool_step_width:
  assumes "pool_step max_workers p q"
    and "int (length (running p)) \<le> max_workers"
  shows "int (length (running q)) \<le> max_workers"
  using assms
proof (induction rule: pool_step.induct)
  case (start p x xs)
  then show ?case by simp
next
  case (finish x p)
  then show ?case by (simp add: length_remove1)
qed

lemma pool_reachable_width:
  assumes "pool_reachable max_workers futures p" and "0 \<le> max_workers"
  shows "int (length (running p)) \<le> max_workers"
  using assms
proof (induction rule: pool_reachable.induct)
  case submitted
  then show ?case by simp
next
  case (step p q)
  then show ?case by (blast intro: pool_step_width)
qed

lemma pool_reachable_started:
  assumes "k \<le> length futures" and "int (length futures) \<le> max_workers"
  shows "pool_reachable max_workers futures
           \<lparr>waiting = drop k futures, running = take k futures, completed = []\<rparr>"
  using assms(1)
proof (induction k)
  case 0
  show ?case by (simp add: pool_reachable.submitted)
next
  case (Suc k)
  let ?p = "\<lparr>waiting = drop k futures, running = take k futures, completed = []\<rparr>"
  from Suc have r: "pool_reachable max_workers futures ?p" by simp
  from Suc.prems have k: "k < length futures" by simp
  then have w: "waiting ?p = futures ! k # drop (Suc k) futures"
    by (simp add: Cons_nth_drop_Suc)
  from k assms(2) have "int (length (running ?p)) < max_workers" by simp
  from pool_step.start [OF w this]
  have "pool_step max_workers ?p
    \<lparr>waiting = drop (Suc k) futures, running = take k futures @ [futures ! k], completed = []\<rparr>"
    by simp
  with k have "pool_step max_workers ?p
    \<lparr>waiting = drop (Suc k) futures, running = take (Suc k) futures, completed = []\<rparr>"
    by (simp add: take_Suc_conv_app_nth)
  with r show ?case by (rule pool_reachable.step)
qed

section \<open>The rate-limit branch in rounds and batches\<close>

lemma create_junk_file_rate_limited:
  assumes "create_file env h repo (file_name_of config i) (commit_message_of (file_name_of config i)) s
             = Inl e"
    and "e = GithubException 403 \<or> (\<exists>text. e = Exception text \<and> str_contains ''403'' text)"
  shows "create_junk_file env repo i s config h
     = (Inr (RTask (repo, i, s)), rate_limit_events config (repo, i, s) e)"
  using assms
  by (auto simp: create_junk_file_def create_call_def rate_limit_events_def Let_def)

lemma retry_loop_rate_limited:
  assumes "retry_loop env config slow_mode tasks acc h = (Inr fs, ev)"
    and "(repo, i, s) \<in> set tasks"
    and "\<forall>h'. create_file env h' repo (file_name_of config i)
                 (commit_message_of (file_name_of config i)) s = Inl e"
    and "e = GithubException 403 \<or> (\<exists>text. e = Exception text \<and> str_contains ''403'' text)"
  shows "(repo, i, s) \<in> set fs \<and> sublist (rate_limit_events config (repo, i, s) e) ev"
  using assms(1,2)
proof (induction tasks arbitrary: acc h ev)
  case Nil
  then show ?case by simp
next
  case (Cons task tasks)
  obtain repo' i' s' where task: "task = (repo', i', s')" by (cases task) auto
  let ?ev0 = "if slow_mode then [Sleep 1] else []"
  obtain r1 ev1 where c: "create_junk_file env repo' i' s' config (h @ ?ev0) = (r1, ev1)"
    by (cases "create_junk_file env repo' i' s' config (h @ ?ev0)") auto
  from Cons.prems(1) task c obtain res where r1: "r1 = Inr res"
    by (cases r1) auto
  let ?acc' = "case res of RTrue \<Rightarrow> acc | RTask t \<Rightarrow> acc @ [t]"
  from Cons.prems(1) task c r1 obtain ev2 where
    rec: "retry_loop env config slow_mode tasks ?acc' (h @ ?ev0 @ ev1) = (Inr fs, ev2)"
    and ev: "ev = ?ev0 @ ev1 @ ev2"
    by (auto simp: Let_def split: prod.splits)
  show ?case
  proof (cases "task = (repo, i, s)")
    case True
    with task assms(3,4) c r1
    have res: "res = RTask (repo, i, s)" and ev1: "ev1 = rate_limit_events config (repo, i, s) e"
      by (simp_all add: create_junk_file_rate_limited)
    from retry_loop_acc [OF rec] res have "(repo, i, s) \<in> set fs" by auto
    moreover have "sublist (rate_limit_events config (repo, i, s) e) ev"
      unfolding ev ev1 by (rule sublist_appendI)
    ultimately show ?thesis by simp
  next
    case False
    with Cons.prems(2) have "(repo, i, s) \<in> set tasks" by simp
    from Cons.IH [OF rec this]
    have "(repo, i, s) \<in> set fs" and "sublist (rate_limit_events config (repo, i, s) e) ev2"
      by simp_all
    then show ?thesis
      unfolding ev by (auto simp: sublist_append)
  qed
qed

lemma run_workers_rate_limited:
  assumes "run_workers env repo s config is h = (rs, ev)"
    and "i \<in> set is"
    and "\<forall>h'. create_file env h' repo (file_name_of config i)
                 (commit_message_of (file_name_of config i)) s = Inl e"
    and "e = GithubException 403 \<or> (\<exists>text. e = Exception text \<and> str_contains ''403'' text)"
  shows "Inr (RTask (repo, i, s)) \<in> set rs \<and> sublist (rate_limit_events config (repo, i, s) e) ev"
  using assms(1,2)
proof (induction "is" arbitrary: h rs ev)
  case Nil
  then show ?case by simp
next
  case (Cons j js)
  obtain r1 ev1 where c: "create_junk_file env repo j s config h = (r1, ev1)"
    by (cases "create_junk_file env repo j s config h") auto
  obtain rs2 ev2 where rec: "run_workers env repo s config js (h @ ev1) = (rs2, ev2)"
    by (cases "run_workers env repo s config js (h @ ev1)") auto
  from Cons.prems(1) c rec have rs: "rs = r1 # rs2" and ev: "ev = ev1 @ ev2"
    by simp_all
  show ?case
  proof (cases "j = i")
    case True
    with assms(3,4) c
    have "r1 = Inr (RTask (repo, i, s))" and "ev1 = rate_limit_events config (repo, i, s) e"
      by (simp_all add: create_junk_file_rate_limited)
    then show ?thesis unfolding rs ev by simp
  next
    case False
    with Cons.prems(2) have "i \<in> set js" by simp
    from Cons.IH [OF rec this] show ?thesis
      unfolding rs ev by (auto simp: sublist_append)
  qed
qed

lemma collect_results_keeps:
  "collect_results rs slow_mode acc = (raised, fs, ev) \<Longrightarrow>
     set acc \<subseteq> set fs \<and> (raised = None \<longrightarrow> (\<forall>t. Inr (RTask t) \<in> set rs \<longrightarrow> t \<in> set fs))"
proof (induction rs slow_mode acc arbitrary: raised fs ev rule: collect_results.induct)
  case (1 slow_mode failed_files)
  then show ?case by simp
next
  case (2 err rs slow_mode failed_files)
  then show ?case by auto
next
  case (3 res rs slow_mode failed_files)
  let ?acc' = "case res of RTrue \<Rightarrow> failed_files | RTask t \<Rightarrow> failed_files @ [t]"
  obtain raised' fs' ev' where rec: "collect_results rs slow_mode ?acc' = (raised', fs', ev')"
    by (cases "collect_results rs slow_mode ?acc'") auto
  with "3.prems" have eq: "raised = raised'" "fs = fs'"
    by (simp_all add: Let_def)
  from "3.IH" [OF refl refl rec]
  have ih: "set ?acc' \<subseteq> set fs'"
    "raised' = None \<longrightarrow> (\<forall>t. Inr (RTask t) \<in> set rs \<longrightarrow> t \<in> set fs')"
    by simp_all
  show ?case
  proof (cases res)
    case RTrue
    with ih eq show ?thesis by auto
  next
    case (RTask t)
    with ih eq show ?thesis by auto
  qed
qed


lemma sublist_in_middle:
  assumes "sublist xs ys"
  shows "sublist xs (ps @ ys @ ss)"
proof -
  from assms obtain a b where "ys = a @ xs @ b" by (auto simp: sublist_def)
  then have "ps @ ys @ ss = (ps @ a) @ xs @ (b @ ss)" by simp
  then show ?thesis unfolding sublist_def by blast
qed

lemma collect_results_events:
  "collect_results rs slow_mode acc = (raised, fs, ev) \<Longrightarrow> set ev \<subseteq> {Sleep 1}"
proof (induction rs slow_mode acc arbitrary: raised fs ev rule: collect_results.induct)
  case (1 slow_mode failed_files)
  then show ?case by simp
next
  case (2 err rs slow_mode failed_files)
  then show ?case by auto
next
  case (3 res rs slow_mode failed_files)
  let ?acc' = "case res of RTrue \<Rightarrow> failed_files | RTask t \<Rightarrow> failed_files @ [t]"
  obtain raised' fs' ev' where rec: "collect_results rs slow_mode ?acc' = (raised', fs', ev')"
    by (cases "collect_results rs slow_mode ?acc'") auto
  with "3.prems" have ev: "ev = (if slow_mode then [Sleep 1] else []) @ ev'"
    by (simp add: Let_def)
  from "3.IH" [OF refl refl rec] have "set ev' \<subseteq> {Sleep 1}" .
  then show ?case unfolding ev by auto
qed

lemma create_junk_file_no_repository_error:
  "create_junk_file env repo i s config h = (r, ev) \<Longrightarrow>
     Print (Error_creating_repository n err) \<notin> set ev"
  by (auto simp: create_junk_file_def Let_def split: sum.splits exn.splits if_splits)

lemma run_workers_events:
  "run_workers env repo s config is h = (rs, ev) \<Longrightarrow>
     filter is_create_call ev = map (\<lambda>i. create_call config (repo, i, s)) is
     \<and> Print (Error_creating_repository n err) \<notin> set ev"
proof (induction "is" arbitrary: h rs ev)
  case Nil
  then show ?case by simp
next
  case (Cons j js)
  obtain r1 ev1 where c: "create_junk_file env repo j s config h = (r1, ev1)"
    by (cases "create_junk_file env repo j s config h") auto
  obtain rs2 ev2 where rec: "run_workers env repo s config js (h @ ev1) = (rs2, ev2)"
    by (cases "run_workers env repo s config js (h @ ev1)") auto
  from Cons.prems c rec have ev: "ev = ev1 @ ev2" by simp
  from c have "filter is_create_call ev1 = [create_call config (repo, j, s)]"
    and "Print (Error_creating_repository n err) \<notin> set ev1"
    by (auto dest: create_junk_file_create_calls create_junk_file_no_repository_error)
  with Cons.IH [OF rec] show ?case unfolding ev by simp
qed

text \<open>
  A batch whose repository is created and whose pool is made: the events are those of
  the repository, of the workers and of the collecting loop, and a last line when the
  loop was ended by an exception.
\<close>

lemma process_repo_batch:
  assumes "create_repo env h (repo_name_of config k) (repo_description_of config)
             (private_repo_of config) = Inr repo"
    and "1 \<le> num_files"
    and "process_repo env sched k num_files file_size config slow_mode h = (failed_files, ev)"
  shows "\<exists>rs ev2 raised ev3.
     run_workers env repo file_size config (sched (range_py 1 (num_files + 1)))
       (h @ [Call (Create_repo (repo_name_of config k) (repo_description_of config)
                     (private_repo_of config)),
             Print (Created_repository (repo_name_of config k))]) = (rs, ev2)
     \<and> collect_results rs slow_mode [] = (raised, failed_files, ev3)
     \<and> ev = [Call (Create_repo (repo_name_of config k) (repo_description_of config)
                     (private_repo_of config)),
             Print (Created_repository (repo_name_of config k))] @ ev2 @ ev3
            @ (case raised of None \<Rightarrow> []
               | Some err \<Rightarrow> [Print (Error_creating_repository (repo_name_of config k) err)])"
proof -
  let ?ev1 = "[Call (Create_repo (repo_name_of config k) (repo_description_of config)
                     (private_repo_of config)),
               Print (Created_repository (repo_name_of config k))]"
  obtain rs ev2 where
    rw: "run_workers env repo file_size config (sched (range_py 1 (num_files + 1))) (h @ ?ev1)
           = (rs, ev2)"
    by (cases "run_workers env repo file_size config (sched (range_py 1 (num_files + 1)))
                 (h @ ?ev1)") auto
  obtain raised fs ev3 where cr: "collect_results rs slow_mode [] = (raised, fs, ev3)"
    by (cases "collect_results rs slow_mode []") auto
  from assms(2) have pool: "ThreadPoolExecutor (max_workers_files slow_mode num_files) = Inr ()"
    by (simp add: ThreadPoolExecutor_def max_workers_files_def)
  from assms(1,3) pool rw cr
  have "failed_files = fs"
    and "ev = ?ev1 @ ev2 @ ev3
            @ (case raised of None \<Rightarrow> []
               | Some err \<Rightarrow> [Print (Error_creating_repository (repo_name_of config k) err)])"
    by (auto simp: process_repo_def Let_def split: option.splits)
  with rw cr show ?thesis by blast
qed

lemma process_repo_create_calls:
  assumes "create_repo env h (repo_name_of config k) (repo_description_of config)
             (private_repo_of config) = Inr repo"
    and "1 \<le> num_files"
    and "process_repo env sched k num_files file_size config slow_mode h = (failed_files, ev)"
  shows "filter is_create_call ev
     = map (\<lambda>i. create_call config (repo, i, file_size)) (sched (range_py 1 (num_files + 1)))"
proof -
  from process_repo_batch [OF assms] obtain rs ev2 raised ev3 where
    rw: "run_workers env repo file_size config (sched (range_py 1 (num_files + 1)))
       (h @ [Call (Create_repo (repo_name_of config k) (repo_description_of config)
                     (private_repo_of config)),
             Print (Created_repository (repo_name_of config k))]) = (rs, ev2)"
    and cr: "collect_results rs slow_mode [] = (raised, failed_files, ev3)"
    and ev: "ev = [Call (Create_repo (repo_name_of config k) (repo_description_of config)
                     (private_repo_of config)),
             Print (Created_repository (repo_name_of config k))] @ ev2 @ ev3
            @ (case raised of None \<Rightarrow> []
               | Some err \<Rightarrow> [Print (Error_creating_repository (repo_name_of config k) err)])"
    by blast
  from run_workers_events [OF rw]
  have c2: "filter is_create_call ev2
     = map (\<lambda>i. create_call config (repo, i, file_size)) (sched (range_py 1 (num_files + 1)))"
    by simp
  from collect_results_events [OF cr] have "filter is_create_call ev3 = []"
    by (auto simp: filter_empty_conv)
  with c2 show ?thesis unfolding ev by (simp split: option.splits)
qed

lemma process_repo_rate_limited:
  assumes "create_repo env h (repo_name_of config k) (repo_description_of config)
             (private_repo_of config) = Inr repo"
    and "1 \<le> num_files"
    and "process_repo env sched k num_files file_size config slow_mode h = (failed_files, ev)"
    and "i \<in> set (sched (range_py 1 (num_files + 1)))"
    and "\<forall>h'. create_file env h' repo (file_name_of config i)
                 (commit_message_of (file_name_of config i)) file_size = Inl e"
    and "e = GithubException 403 \<or> (\<exists>text. e = Exception text \<and> str_contains ''403'' text)"
  shows "sublist (rate_limit_events config (repo, i, file_size) e) ev
     \<and> ((\<forall>err. Print (Error_creating_repository (repo_name_of config k) err) \<notin> set ev)
          \<longrightarrow> (repo, i, file_size) \<in> set failed_files)"
proof -
  from process_repo_batch [OF assms(1-3)] obtain rs ev2 raised ev3 where
    rw: "run_workers env repo file_size config (sched (range_py 1 (num_files + 1)))
       (h @ [Call (Create_repo (repo_name_of config k) (repo_description_of config)
                     (private_repo_of config)),
             Print (Created_repository (repo_name_of config k))]) = (rs, ev2)"
    and cr: "collect_results rs slow_mode [] = (raised, failed_files, ev3)"
    and ev: "ev = [Call (Create_repo (repo_name_of config k) (repo_description_of config)
                     (private_repo_of config)),
             Print (Created_repository (repo_name_of config k))] @ ev2 @ ev3
            @ (case raised of None \<Rightarrow> []
               | Some err \<Rightarrow> [Print (Error_creating_repository (repo_name_of config k) err)])"
    by blast
  from run_workers_rate_limited [OF rw assms(4-6)]
  have r: "Inr (RTask (repo, i, file_size)) \<in> set rs"
    and s: "sublist (rate_limit_events config (repo, i, file_size) e) ev2"
    by simp_all
  from s have "sublist (rate_limit_events config (repo, i, file_size) e) ev"
    unfolding ev by (rule sublist_in_middle)
  moreover have "(repo, i, file_size) \<in> set failed_files"
    if "\<forall>err. Print (Error_creating_repository (repo_name_of config k) err) \<notin> set ev"
  proof -
    from that have "raised = None" unfolding ev by (cases raised) auto
    with collect_results_keeps [OF cr] r show ?thesis by blast
  qed
  ultimately show ?thesis by blast
qed

text \<open>
  \<^verbatim>\<open>repo/python.py\<close> on status 403: after the wait, one read, and one update with the
  sha that the read gave.
\<close>

lemma python_create_junk_file_forbidden:
  assumes "create_file env h repo (file_name_of config i) (commit_message_of (file_name_of config i)) s
             = Inl (GithubException 403)"
  shows "python_create_junk_file env repo i s config h
     = (case get_contents env (h @ rate_limit_events config (repo, i, s) (GithubException 403))
               repo (file_name_of config i) of
          Inl (GithubException status) \<Rightarrow>
            (Inr (), rate_limit_events config (repo, i, s) (GithubException 403)
               @ [Call (Get_contents repo (file_name_of config i)),
                  Print (Error_updating_file_after_delay (file_name_of config i) (name repo)
                           (GithubException status))])
        | Inl (Exception text) \<Rightarrow>
            (Inl (Exception text), rate_limit_events config (repo, i, s) (GithubException 403)
               @ [Call (Get_contents repo (file_name_of config i))])
        | Inr sha \<Rightarrow>
            (case update_file env
                    (h @ rate_limit_events config (repo, i, s) (GithubException 403)
                       @ [Call (Get_contents repo (file_name_of config i))])
                    repo (file_name_of config i) (commit_message_of (file_name_of config i)) s sha of
               Inr u \<Rightarrow>
                 (Inr (), rate_limit_events config (repo, i, s) (GithubException 403)
                    @ [Call (Get_contents repo (file_name_of config i)),
                       Call (Update_file repo (file_name_of config i)
                               (commit_message_of (file_name_of config i)) s sha),
                       Print (Updated_file_after_delay (file_name_of config i) (name repo))])
             | Inl (GithubException status) \<Rightarrow>
                 (Inr (), rate_limit_events config (repo, i, s) (GithubException 403)
                    @ [Call (Get_contents repo (file_name_of config i)),
                       Call (Update_file repo (file_name_of config i)
                               (commit_message_of (file_name_of config i)) s sha),
                       Print (Error_updating_file_after_delay (file_name_of config i) (name repo)
                                (GithubException status))])
             | Inl (Exception text) \<Rightarrow>
                 (Inl (Exception text), rate_limit_events config (repo, i, s) (GithubException 403)
                    @ [Call (Get_contents repo (file_name_of config i)),
                       Call (Update_file repo (file_name_of config i)
                               (commit_message_of (file_name_of config i)) s sha)])))"
  using assms
  by (simp add: python_create_junk_file_def rate_limit_events_def create_call_def Let_def
      RATE_LIMIT_DELAY_def split: sum.splits exn.splits)


text \<open>
  C2, amended. In \<^verbatim>\<open>org/pyhon.py\<close>, when the call that creates the file raises a
  \<open>GithubException\<close> of status 403, or another exception whose text contains
  \<^verbatim>\<open>403\<close>, \<open>create_junk_file\<close> makes no other remote call, sleeps
  \<open>RATE_LIMIT_DELAY = 60\<close> as its last action and returns the record of the operation.
  The retry round and the dispatcher run this branch: for an operation whose creating
  call is always classified so, a round that returns, and a batch of \<open>N \<ge> 1\<close> files in
  a created repository, contain these four events in a row, make one creating call for
  each of their operations, and return the operation in their list (the batch unless
  its collecting loop was ended by an exception, which prints the repository error).
  In \<^verbatim>\<open>repo/python.py\<close>, on status 403, the function sleeps 60 as well, then reads the
  file once and, when the read gives a sha, updates the file once with that sha, in the
  same pass; it returns nothing, and an exception of the read or of the update that is
  not a \<open>GithubException\<close> leaves the function.
\<close>

theorem rate_limit_sleeps_then_fails:
  assumes "create_file env h repo (file_name_of config file_index)
             (commit_message_of (file_name_of config file_index)) file_size = Inl e"
    and "e = GithubException 403 \<or> (\<exists>text. e = Exception text \<and> str_contains ''403'' text)"
  shows "RATE_LIMIT_DELAY = 60
     \<and> create_junk_file env repo file_index file_size config h
         = (Inr (RTask (repo, file_index, file_size)),
            [create_call config (repo, file_index, file_size),
             Print (Forbidden_403 (file_name_of config file_index) (name repo) e),
             Print (Waiting_before_retrying 60), Sleep 60])
     \<and> rate_limit_events config (repo, file_index, file_size) e
         = [create_call config (repo, file_index, file_size),
            Print (Forbidden_403 (file_name_of config file_index) (name repo) e),
            Print (Waiting_before_retrying 60), Sleep 60]
     \<and> ((\<forall>h'. create_file env h' repo (file_name_of config file_index)
                 (commit_message_of (file_name_of config file_index)) file_size = Inl e) \<longrightarrow>
           (\<forall>tasks slow_mode h0 fs ev.
              retry_failed_files env tasks config slow_mode h0 = (Inr fs, ev)
              \<and> (repo, file_index, file_size) \<in> set tasks \<longrightarrow>
                (repo, file_index, file_size) \<in> set fs
                \<and> sublist (rate_limit_events config (repo, file_index, file_size) e) ev
                \<and> filter is_create_call ev = map (create_call config) tasks)
         \<and> (\<forall>sched k num_files slow_mode h0 failed_files ev.
              create_repo env h0 (repo_name_of config k) (repo_description_of config)
                (private_repo_of config) = Inr repo
              \<and> 1 \<le> num_files
              \<and> file_index \<in> set (sched (range_py 1 (num_files + 1)))
              \<and> process_repo env sched k num_files file_size config slow_mode h0
                  = (failed_files, ev) \<longrightarrow>
                sublist (rate_limit_events config (repo, file_index, file_size) e) ev
                \<and> filter is_create_call ev
                    = map (\<lambda>i. create_call config (repo, i, file_size))
                        (sched (range_py 1 (num_files + 1)))
                \<and> ((\<forall>err. Print (Error_creating_repository (repo_name_of config k) err)
                             \<notin> set ev) \<longrightarrow>
                     (repo, file_index, file_size) \<in> set failed_files)))
     \<and> (e = GithubException 403 \<longrightarrow>
          python_create_junk_file env repo file_index file_size config h
          = (case get_contents env (h @ rate_limit_events config (repo, file_index, file_size) e)
                    repo (file_name_of config file_index) of
               Inl (GithubException status) \<Rightarrow>
                 (Inr (), rate_limit_events config (repo, file_index, file_size) e
                    @ [Call (Get_contents repo (file_name_of config file_index)),
                       Print (Error_updating_file_after_delay (file_name_of config file_index)
                                (name repo) (GithubException status))])
             | Inl (Exception text) \<Rightarrow>
                 (Inl (Exception text), rate_limit_events config (repo, file_index, file_size) e
                    @ [Call (Get_contents repo (file_name_of config file_index))])
             | Inr sha \<Rightarrow>
                 (case update_file env
                         (h @ rate_limit_events config (repo, file_index, file_size) e
                            @ [Call (Get_contents repo (file_name_of config file_index))])
                         repo (file_name_of config file_index)
                         (commit_message_of (file_name_of config file_index)) file_size sha of
                    Inr u \<Rightarrow>
                      (Inr (), rate_limit_events config (repo, file_index, file_size) e
                         @ [Call (Get_contents repo (file_name_of config file_index)),
                            Call (Update_file repo (file_name_of config file_index)
                                    (commit_message_of (file_name_of config file_index))
                                    file_size sha),
                            Print (Updated_file_after_delay (file_name_of config file_index)
                                     (name repo))])
                  | Inl (GithubException status) \<Rightarrow>
                      (Inr (), rate_limit_events config (repo, file_index, file_size) e
                         @ [Call (Get_contents repo (file_name_of config file_index)),
                            Call (Update_file repo (file_name_of config file_index)
                                    (commit_message_of (file_name_of config file_index))
                                    file_size sha),
                            Print (Error_updating_file_after_delay
                                     (file_name_of config file_index) (name repo)
                                     (GithubException status))])
                  | Inl (Exception text) \<Rightarrow>
                      (Inl (Exception text),
                       rate_limit_events config (repo, file_index, file_size) e
                         @ [Call (Get_contents repo (file_name_of config file_index)),
                            Call (Update_file repo (file_name_of config file_index)
                                    (commit_message_of (file_name_of config file_index))
                                    file_size sha)]))))"
proof (intro conjI impI allI)
  show "RATE_LIMIT_DELAY = 60" by (simp add: RATE_LIMIT_DELAY_def)
next
  show ev: "rate_limit_events config (repo, file_index, file_size) e
         = [create_call config (repo, file_index, file_size),
            Print (Forbidden_403 (file_name_of config file_index) (name repo) e),
            Print (Waiting_before_retrying 60), Sleep 60]"
    by (simp add: rate_limit_events_def RATE_LIMIT_DELAY_def)
  from create_junk_file_rate_limited [OF assms]
  show "create_junk_file env repo file_index file_size config h
         = (Inr (RTask (repo, file_index, file_size)),
            [create_call config (repo, file_index, file_size),
             Print (Forbidden_403 (file_name_of config file_index) (name repo) e),
             Print (Waiting_before_retrying 60), Sleep 60])"
    unfolding ev .
next
  fix tasks slow_mode h0 fs ev
  assume all: "\<forall>h'. create_file env h' repo (file_name_of config file_index)
                 (commit_message_of (file_name_of config file_index)) file_size = Inl e"
    and "retry_failed_files env tasks config slow_mode h0 = (Inr fs, ev)
           \<and> (repo, file_index, file_size) \<in> set tasks"
  then have run: "retry_loop env config slow_mode tasks [] h0 = (Inr fs, ev)"
    and mem: "(repo, file_index, file_size) \<in> set tasks"
    by (simp_all add: retry_failed_files_def)
  from retry_loop_rate_limited [OF run mem all assms(2)]
  show "(repo, file_index, file_size) \<in> set fs"
    and "sublist (rate_limit_events config (repo, file_index, file_size) e) ev"
    by simp_all
  from retry_loop_create_calls [OF run]
  show "filter is_create_call ev = map (create_call config) tasks" by simp
next
  fix sched k num_files slow_mode h0 failed_files ev
  assume all: "\<forall>h'. create_file env h' repo (file_name_of config file_index)
                 (commit_message_of (file_name_of config file_index)) file_size = Inl e"
    and "create_repo env h0 (repo_name_of config k) (repo_description_of config)
                (private_repo_of config) = Inr repo
              \<and> 1 \<le> num_files
              \<and> file_index \<in> set (sched (range_py 1 (num_files + 1)))
              \<and> process_repo env sched k num_files file_size config slow_mode h0
                  = (failed_files, ev)"
  then have repo: "create_repo env h0 (repo_name_of config k) (repo_description_of config)
                (private_repo_of config) = Inr repo"
    and n: "1 \<le> num_files"
    and mem: "file_index \<in> set (sched (range_py 1 (num_files + 1)))"
    and run: "process_repo env sched k num_files file_size config slow_mode h0
                  = (failed_files, ev)"
    by simp_all
  from process_repo_rate_limited [OF repo n run mem all assms(2)]
  show "sublist (rate_limit_events config (repo, file_index, file_size) e) ev" by simp
  from process_repo_create_calls [OF repo n run]
  show "filter is_create_call ev
          = map (\<lambda>i. create_call config (repo, i, file_size))
              (sched (range_py 1 (num_files + 1)))" .
  assume "\<forall>err. Print (Error_creating_repository (repo_name_of config k) err) \<notin> set ev"
  with process_repo_rate_limited [OF repo n run mem all assms(2)]
  show "(repo, file_index, file_size) \<in> set failed_files" by simp
next
  assume e: "e = GithubException 403"
  from assms(1) have "create_file env h repo (file_name_of config file_index)
      (commit_message_of (file_name_of config file_index)) file_size = Inl (GithubException 403)"
    unfolding e .
  from python_create_junk_file_forbidden [OF this]
  show "python_create_junk_file env repo file_index file_size config h
          = (case get_contents env (h @ rate_limit_events config (repo, file_index, file_size) e)
                    repo (file_name_of config file_index) of
               Inl (GithubException status) \<Rightarrow>
                 (Inr (), rate_limit_events config (repo, file_index, file_size) e
                    @ [Call (Get_contents repo (file_name_of config file_index)),
                       Print (Error_updating_file_after_delay (file_name_of config file_index)
                                (name repo) (GithubException status))])
             | Inl (Exception text) \<Rightarrow>
                 (Inl (Exception text), rate_limit_events config (repo, file_index, file_size) e
                    @ [Call (Get_contents repo (file_name_of config file_index))])
             | Inr sha \<Rightarrow>
                 (case update_file env
                         (h @ rate_limit_events config (repo, file_index, file_size) e
                            @ [Call (Get_contents repo (file_name_of config file_index))])
                         repo (file_name_of config file_index)
                         (commit_message_of (file_name_of config file_index)) file_size sha of
                    Inr u \<Rightarrow>
                      (Inr (), rate_limit_events config (repo, file_index, file_size) e
                         @ [Call (Get_contents repo (file_name_of config file_index)),
                            Call (Update_file repo (file_name_of config file_index)
                                    (commit_message_of (file_name_of config file_index))
                                    file_size sha),
                            Print (Updated_file_after_delay (file_name_of config file_index)
                                     (name repo))])
                  | Inl (GithubException status) \<Rightarrow>
                      (Inr (), rate_limit_events config (repo, file_index, file_size) e
                         @ [Call (Get_contents repo (file_name_of config file_index)),
                            Call (Update_file repo (file_name_of config file_index)
                                    (commit_message_of (file_name_of config file_index))
                                    file_size sha),
                            Print (Error_updating_file_after_delay
                                     (file_name_of config file_index) (name repo)
                                     (GithubException status))])
                  | Inl (Exception text) \<Rightarrow>
                      (Inl (Exception text),
                       rate_limit_events config (repo, file_index, file_size) e
                         @ [Call (Get_contents repo (file_name_of config file_index)),
                            Call (Update_file repo (file_name_of config file_index)
                                    (commit_message_of (file_name_of config file_index))
                                    file_size sha)])))"
    unfolding e .
qed


lemma rate_limited_batch_run:
  "process_repo (remote_create_raises (GithubException 403)) id 1 1 2 Map.empty False []
     = ([(Repo ''junk-repo-1'', 1, 2)],
        [Call (Create_repo ''junk-repo-1'' ''Repository filled with junk content'' False),
         Print (Created_repository ''junk-repo-1''),
         Call (Create_file (Repo ''junk-repo-1'') ''junk-1.txt''
                 ''Add/Update file junk-1.txt with junk content'' 2),
         Print (Forbidden_403 ''junk-1.txt'' ''junk-repo-1'' (GithubException 403)),
         Print (Waiting_before_retrying 60), Sleep 60])"
  by code_simp

lemma rate_limited_round_run:
  "retry_failed_files (remote_create_raises (GithubException 403))
       [(Repo ''junk-repo-1'', 1, 2)] Map.empty True []
     = (Inr [(Repo ''junk-repo-1'', 1, 2)],
        [Sleep 1,
         Call (Create_file (Repo ''junk-repo-1'') ''junk-1.txt''
                 ''Add/Update file junk-1.txt with junk content'' 2),
         Print (Forbidden_403 ''junk-1.txt'' ''junk-repo-1'' (GithubException 403)),
         Print (Waiting_before_retrying 60), Sleep 60])"
  by code_simp

theorem rate_limit_sleeps_then_fails_witness:
  "create_file (remote_create_raises (GithubException 403)) [] (Repo ''junk-repo-1'')
       (file_name_of Map.empty 1) (commit_message_of (file_name_of Map.empty 1)) 2
     = Inl (GithubException 403)
   \<and> (\<forall>h'. create_file (remote_create_raises (GithubException 403)) h' (Repo ''junk-repo-1'')
              (file_name_of Map.empty 1) (commit_message_of (file_name_of Map.empty 1)) 2
            = Inl (GithubException 403))
   \<and> create_junk_file (remote_create_raises (GithubException 403)) (Repo ''junk-repo-1'') 1 2
        Map.empty []
       = (Inr (RTask (Repo ''junk-repo-1'', 1, 2)),
          [create_call Map.empty (Repo ''junk-repo-1'', 1, 2),
           Print (Forbidden_403 (file_name_of Map.empty 1) (name (Repo ''junk-repo-1''))
                    (GithubException 403)),
           Print (Waiting_before_retrying 60), Sleep 60])
   \<and> fst (retry_failed_files (remote_create_raises (GithubException 403))
             [(Repo ''junk-repo-1'', 1, 2)] Map.empty True [])
       = Inr [(Repo ''junk-repo-1'', 1, 2)]
   \<and> sublist (rate_limit_events Map.empty (Repo ''junk-repo-1'', 1, 2) (GithubException 403))
        (snd (retry_failed_files (remote_create_raises (GithubException 403))
                [(Repo ''junk-repo-1'', 1, 2)] Map.empty True []))
   \<and> create_repo (remote_create_raises (GithubException 403)) [] (repo_name_of Map.empty 1)
        (repo_description_of Map.empty) (private_repo_of Map.empty) = Inr (Repo ''junk-repo-1'')
   \<and> sublist (rate_limit_events Map.empty (Repo ''junk-repo-1'', 1, 2) (GithubException 403))
        (snd (process_repo (remote_create_raises (GithubException 403)) id 1 1 2 Map.empty
                False []))
   \<and> (Repo ''junk-repo-1'', 1, 2)
        \<in> set (fst (process_repo (remote_create_raises (GithubException 403)) id 1 1 2
                      Map.empty False []))
   \<and> python_create_junk_file (remote_create_raises (GithubException 403)) (Repo ''junk-repo-1'')
        1 2 Map.empty []
       = (Inr (),
          rate_limit_events Map.empty (Repo ''junk-repo-1'', 1, 2) (GithubException 403)
            @ [Call (Get_contents (Repo ''junk-repo-1'') (file_name_of Map.empty 1)),
               Call (Update_file (Repo ''junk-repo-1'') (file_name_of Map.empty 1)
                       (commit_message_of (file_name_of Map.empty 1)) 2 ''sha''),
               Print (Updated_file_after_delay (file_name_of Map.empty 1)
                        (name (Repo ''junk-repo-1'')))])"
proof -
  let ?E = "remote_create_raises (GithubException 403)"
  let ?R = "Repo ''junk-repo-1''"
  let ?B = "rate_limit_events Map.empty (?R, 1, 2) (GithubException 403)"
  have h1: "create_file ?E [] ?R (file_name_of Map.empty 1)
       (commit_message_of (file_name_of Map.empty 1)) 2 = Inl (GithubException 403)"
    by (simp add: remote_create_raises_def)
  have h2: "GithubException 403 = GithubException 403
     \<or> (\<exists>text. GithubException 403 = Exception text \<and> str_contains ''403'' text)"
    by simp
  have hall: "\<forall>h'. create_file ?E h' ?R (file_name_of Map.empty 1)
       (commit_message_of (file_name_of Map.empty 1)) 2 = Inl (GithubException 403)"
    by (simp add: remote_create_raises_def)
  note T = rate_limit_sleeps_then_fails [OF h1 h2]
  from T have c2: "create_junk_file ?E ?R 1 2 Map.empty []
       = (Inr (RTask (?R, 1, 2)),
          [create_call Map.empty (?R, 1, 2),
           Print (Forbidden_403 (file_name_of Map.empty 1) (name ?R) (GithubException 403)),
           Print (Waiting_before_retrying 60), Sleep 60])"
    by blast
  from T hall have rounds: "\<forall>tasks slow_mode h0 fs ev.
              retry_failed_files ?E tasks Map.empty slow_mode h0 = (Inr fs, ev)
              \<and> (?R, 1, 2) \<in> set tasks \<longrightarrow>
                (?R, 1, 2) \<in> set fs \<and> sublist ?B ev
                \<and> filter is_create_call ev = map (create_call Map.empty) tasks"
    by blast
  from T hall have batches: "\<forall>sched k num_files slow_mode h0 failed_files ev.
              create_repo ?E h0 (repo_name_of Map.empty k) (repo_description_of Map.empty)
                (private_repo_of Map.empty) = Inr ?R
              \<and> 1 \<le> num_files
              \<and> 1 \<in> set (sched (range_py 1 (num_files + 1)))
              \<and> process_repo ?E sched k num_files 2 Map.empty slow_mode h0
                  = (failed_files, ev) \<longrightarrow>
                sublist ?B ev
                \<and> filter is_create_call ev
                    = map (\<lambda>i. create_call Map.empty (?R, i, 2))
                        (sched (range_py 1 (num_files + 1)))
                \<and> ((\<forall>err. Print (Error_creating_repository (repo_name_of Map.empty k) err)
                             \<notin> set ev) \<longrightarrow>
                     (?R, 1, 2) \<in> set failed_files)"
    by blast
  have round: "retry_failed_files ?E [(?R, 1, 2)] Map.empty True []
      = (Inr [(?R, 1, 2)], snd (retry_failed_files ?E [(?R, 1, 2)] Map.empty True []))"
    by (simp add: rate_limited_round_run)
  from rounds round have r: "sublist ?B (snd (retry_failed_files ?E [(?R, 1, 2)] Map.empty True []))"
    by (metis list.set_intros(1))
  have fr: "fst (retry_failed_files ?E [(?R, 1, 2)] Map.empty True []) = Inr [(?R, 1, 2)]"
    by (simp add: rate_limited_round_run)
  have repo: "create_repo ?E [] (repo_name_of Map.empty 1) (repo_description_of Map.empty)
      (private_repo_of Map.empty) = Inr ?R"
    by code_simp
  have mem: "1 \<in> set (id (range_py 1 (1 + 1)))"
    by (simp add: range_py_def)
  have batch: "process_repo ?E id 1 1 2 Map.empty False []
      = (fst (process_repo ?E id 1 1 2 Map.empty False []),
         snd (process_repo ?E id 1 1 2 Map.empty False []))"
    by simp
  have quiet: "\<forall>err. Print (Error_creating_repository (repo_name_of Map.empty 1) err)
      \<notin> set (snd (process_repo ?E id 1 1 2 Map.empty False []))"
    by (simp add: rate_limited_batch_run)
  from batches [rule_format, of "[]" 1 1 id False
      "fst (process_repo ?E id 1 1 2 Map.empty False [])"
      "snd (process_repo ?E id 1 1 2 Map.empty False [])"] repo mem batch quiet
  have b: "sublist ?B (snd (process_repo ?E id 1 1 2 Map.empty False []))"
    "(?R, 1, 2) \<in> set (fst (process_repo ?E id 1 1 2 Map.empty False []))"
    by simp_all
  from T have "python_create_junk_file ?E ?R 1 2 Map.empty []
      = (case get_contents ?E ([] @ ?B) ?R (file_name_of Map.empty 1) of
               Inl (GithubException status) \<Rightarrow>
                 (Inr (), ?B
                    @ [Call (Get_contents ?R (file_name_of Map.empty 1)),
                       Print (Error_updating_file_after_delay (file_name_of Map.empty 1)
                                (name ?R) (GithubException status))])
             | Inl (Exception text) \<Rightarrow>
                 (Inl (Exception text), ?B @ [Call (Get_contents ?R (file_name_of Map.empty 1))])
             | Inr sha \<Rightarrow>
                 (case update_file ?E
                         ([] @ ?B @ [Call (Get_contents ?R (file_name_of Map.empty 1))])
                         ?R (file_name_of Map.empty 1)
                         (commit_message_of (file_name_of Map.empty 1)) 2 sha of
                    Inr u \<Rightarrow>
                      (Inr (), ?B
                         @ [Call (Get_contents ?R (file_name_of Map.empty 1)),
                            Call (Update_file ?R (file_name_of Map.empty 1)
                                    (commit_message_of (file_name_of Map.empty 1)) 2 sha),
                            Print (Updated_file_after_delay (file_name_of Map.empty 1)
                                     (name ?R))])
                  | Inl (GithubException status) \<Rightarrow>
                      (Inr (), ?B
                         @ [Call (Get_contents ?R (file_name_of Map.empty 1)),
                            Call (Update_file ?R (file_name_of Map.empty 1)
                                    (commit_message_of (file_name_of Map.empty 1)) 2 sha),
                            Print (Error_updating_file_after_delay
                                     (file_name_of Map.empty 1) (name ?R)
                                     (GithubException status))])
                  | Inl (Exception text) \<Rightarrow>
                      (Inl (Exception text),
                       ?B
                         @ [Call (Get_contents ?R (file_name_of Map.empty 1)),
                            Call (Update_file ?R (file_name_of Map.empty 1)
                                    (commit_message_of (file_name_of Map.empty 1)) 2 sha)])))"
    by blast
  then have py: "python_create_junk_file ?E ?R 1 2 Map.empty []
       = (Inr (),
          ?B @ [Call (Get_contents ?R (file_name_of Map.empty 1)),
               Call (Update_file ?R (file_name_of Map.empty 1)
                       (commit_message_of (file_name_of Map.empty 1)) 2 ''sha''),
               Print (Updated_file_after_delay (file_name_of Map.empty 1) (name ?R))])"
    by (simp add: remote_create_raises_def remote_ok_def)
  from h1 hall c2 fr r repo b py show ?thesis by blast
qed

section \<open>The pool of a batch\<close>

lemma pool_step_mset:
  assumes "pool_step max_workers p q"
  shows "mset (completed q) + mset (running q) + mset (waiting q)
       = mset (completed p) + mset (running p) + mset (waiting p)"
  using assms
proof (induction rule: pool_step.induct)
  case (start p x xs)
  then show ?case by simp
next
  case (finish x p)
  then show ?case by simp
qed

lemma pool_reachable_mset:
  assumes "pool_reachable max_workers futures p"
  shows "mset (completed p) + mset (running p) + mset (waiting p) = mset futures"
  using assms
proof (induction rule: pool_reachable.induct)
  case submitted
  show ?case by simp
next
  case (step p q)
  then show ?case by (simp add: pool_step_mset)
qed

text \<open>With one worker the calls start and complete in the order of submission.\<close>

lemma pool_step_fifo:
  assumes "pool_step 1 p q"
    and "completed p @ running p @ waiting p = futures"
    and "length (running p) \<le> 1"
  shows "completed q @ running q @ waiting q = futures"
  using assms
proof (induction rule: pool_step.induct)
  case (start p x xs)
  then show ?case by simp
next
  case (finish x p)
  then obtain y where "running p = [y]"
    by (cases "running p") auto
  with finish show ?case by simp
qed

lemma pool_reachable_fifo:
  assumes "pool_reachable 1 futures p"
  shows "completed p @ running p @ waiting p = futures"
  using assms
proof (induction rule: pool_reachable.induct)
  case submitted
  show ?case by simp
next
  case (step p q)
  from step.hyps(1) have "int (length (running p)) \<le> 1"
    by (rule pool_reachable_width) simp
  with step show ?case by (auto intro: pool_step_fifo)
qed

text \<open>
  With as many workers as calls, all calls can run at once and complete in any order.
\<close>

lemma pool_finish_in_order:
  assumes "pool_reachable max_workers futures \<lparr>waiting = [], running = r, completed = c\<rparr>"
    and "mset r = mset order"
  shows "pool_reachable max_workers futures \<lparr>waiting = [], running = [], completed = c @ order\<rparr>"
  using assms
proof (induction order arbitrary: r c)
  case Nil
  then show ?case by simp
next
  case (Cons x xs)
  let ?p = "\<lparr>waiting = [], running = r, completed = c\<rparr>"
  from Cons.prems(2) have x: "x \<in> set r"
    by (metis list.set_intros(1) set_mset_mset)
  then have "x \<in> set (running ?p)" by simp
  from pool_step.finish [OF this, of max_workers]
  have "pool_step max_workers ?p \<lparr>waiting = [], running = remove1 x r, completed = c @ [x]\<rparr>"
    by simp
  with Cons.prems(1)
  have r: "pool_reachable max_workers futures
             \<lparr>waiting = [], running = remove1 x r, completed = c @ [x]\<rparr>"
    by (rule pool_reachable.step)
  from Cons.prems(2) have "mset (remove1 x r) = mset xs" by simp
  from Cons.IH [OF r this] show ?case by simp
qed

lemma pool_any_order:
  assumes "int (length futures) \<le> max_workers" and "mset order = mset futures"
  shows "pool_reachable max_workers futures \<lparr>waiting = [], running = [], completed = order\<rparr>"
proof -
  from pool_reachable_started [OF le_refl assms(1)]
  have "pool_reachable max_workers futures \<lparr>waiting = [], running = futures, completed = []\<rparr>"
    by simp
  from pool_finish_in_order [OF this assms(2) [symmetric]] show ?thesis by simp
qed

lemma python_create_junk_file_create_calls:
  "python_create_junk_file env repo i s config h = (r, ev) \<Longrightarrow>
     filter is_create_call ev = [create_call config (repo, i, s)]"
  by (auto simp: python_create_junk_file_def create_call_def Let_def
      split: sum.splits exn.splits if_splits)

lemma python_run_workers_events:
  "python_run_workers env repo s config is h = (rs, ev) \<Longrightarrow>
     filter is_create_call ev = map (\<lambda>i. create_call config (repo, i, s)) is"
proof (induction "is" arbitrary: h rs ev)
  case Nil
  then show ?case by simp
next
  case (Cons j js)
  obtain r1 ev1 where c: "python_create_junk_file env repo j s config h = (r1, ev1)"
    by (cases "python_create_junk_file env repo j s config h") auto
  obtain rs2 ev2 where rec: "python_run_workers env repo s config js (h @ ev1) = (rs2, ev2)"
    by (cases "python_run_workers env repo s config js (h @ ev1)") auto
  from Cons.prems c rec have ev: "ev = ev1 @ ev2" by simp
  from c have "filter is_create_call ev1 = [create_call config (repo, j, s)]"
    by (rule python_create_junk_file_create_calls)
  with Cons.IH [OF rec] show ?case unfolding ev by simp
qed

lemma python_collect_results_events:
  "filter is_create_call (python_collect_results rs slow_mode) = []"
  by (induction rs) (auto split: sum.splits)

lemma python_main_files_create_calls:
  assumes "1 \<le> num_files"
    and "python_main_files env sched repo num_files file_size config slow_mode h = (r, ev)"
  shows "r = Inr ()
     \<and> filter is_create_call ev
         = map (\<lambda>i. create_call config (repo, i, file_size)) (sched (range_py 1 (num_files + 1)))"
proof -
  obtain rs ev1 where
    rw: "python_run_workers env repo file_size config (sched (range_py 1 (num_files + 1))) h
           = (rs, ev1)"
    by (cases "python_run_workers env repo file_size config
                 (sched (range_py 1 (num_files + 1))) h") auto
  from assms(1) have "ThreadPoolExecutor (python_max_workers slow_mode num_files) = Inr ()"
    by (simp add: ThreadPoolExecutor_def python_max_workers_def)
  with assms(2) rw have "r = Inr ()" and "ev = ev1 @ python_collect_results rs slow_mode"
    by (simp_all add: python_main_files_def)
  with python_run_workers_events [OF rw] show ?thesis
    by (simp add: python_collect_results_events)
qed

text \<open>
  C9. For a batch of \<open>N \<ge> 1\<close> operations both scripts make their pool with width 1 in
  slow mode and width \<open>N\<close> in fast mode. The calls of the dispatcher
  (\<open>process_repo\<close>, and \<open>main\<close> of \<^verbatim>\<open>repo/python.py\<close>) that create files are made
  one for each submitted call, in the order \<open>sched\<close> in which that pool completes
  them. In every state of that pool at most 1 call is running in slow mode and at most
  \<open>N\<close> in fast mode. In slow mode the calls start and complete in the order of
  submission, so the creating calls are made for the indices \<open>1..N\<close> in this order,
  each after the one before has completed; in fast mode all \<open>N\<close> calls can be running
  at once and every order of completion is possible.
\<close>

theorem pool_width_by_mode:
  assumes "1 \<le> num_files"
    and "create_repo env h (repo_name_of config repo_index) (repo_description_of config)
           (private_repo_of config) = Inr repo"
    and "pool_reachable (max_workers_files slow_mode num_files) (range_py 1 (num_files + 1)) p"
    and "pool_reachable (max_workers_files slow_mode num_files) (range_py 1 (num_files + 1))
           \<lparr>waiting = [], running = [], completed = sched (range_py 1 (num_files + 1))\<rparr>"
    and "process_repo env sched repo_index num_files file_size config slow_mode h
           = (failed_files, ev)"
    and "python_main_files env sched repo num_files file_size config slow_mode h' = (r', ev')"
  shows "max_workers_files slow_mode num_files = (if slow_mode then 1 else num_files)
     \<and> python_max_workers slow_mode num_files = (if slow_mode then 1 else num_files)
     \<and> int (length (running p)) \<le> (if slow_mode then 1 else num_files)
     \<and> filter is_create_call ev
         = map (\<lambda>i. create_call config (repo, i, file_size)) (sched (range_py 1 (num_files + 1)))
     \<and> filter is_create_call ev'
         = map (\<lambda>i. create_call config (repo, i, file_size)) (sched (range_py 1 (num_files + 1)))
     \<and> mset (sched (range_py 1 (num_files + 1))) = mset (range_py 1 (num_files + 1))
     \<and> (slow_mode \<longrightarrow>
          completed p @ running p @ waiting p = range_py 1 (num_files + 1)
          \<and> sched (range_py 1 (num_files + 1)) = range_py 1 (num_files + 1)
          \<and> filter is_create_call ev
              = map (\<lambda>i. create_call config (repo, i, file_size)) (range_py 1 (num_files + 1))
          \<and> filter is_create_call ev'
              = map (\<lambda>i. create_call config (repo, i, file_size)) (range_py 1 (num_files + 1)))
     \<and> (\<not> slow_mode \<longrightarrow>
          (\<exists>q. pool_reachable (max_workers_files slow_mode num_files)
                  (range_py 1 (num_files + 1)) q
                \<and> int (length (running q)) = num_files)
          \<and> (\<forall>order. mset order = mset (range_py 1 (num_files + 1)) \<longrightarrow>
                pool_reachable (max_workers_files slow_mode num_files)
                  (range_py 1 (num_files + 1))
                  \<lparr>waiting = [], running = [], completed = order\<rparr>))"
proof -
  let ?fs = "range_py 1 (num_files + 1)"
  let ?w = "max_workers_files slow_mode num_files"
  have w: "?w = (if slow_mode then 1 else num_files)"
    by (simp add: max_workers_files_def)
  have pw: "python_max_workers slow_mode num_files = (if slow_mode then 1 else num_files)"
    by (simp add: python_max_workers_def)
  from w assms(1) have pos: "0 \<le> ?w" by simp
  from pool_reachable_width [OF assms(3) pos] w
  have bound: "int (length (running p)) \<le> (if slow_mode then 1 else num_files)" by simp
  have calls: "filter is_create_call ev
      = map (\<lambda>i. create_call config (repo, i, file_size)) (sched ?fs)"
    by (rule process_repo_create_calls [OF assms(2,1,5)])
  from python_main_files_create_calls [OF assms(1,6)]
  have pcalls: "filter is_create_call ev'
      = map (\<lambda>i. create_call config (repo, i, file_size)) (sched ?fs)"
    by simp
  from pool_reachable_mset [OF assms(4)] have perm: "mset (sched ?fs) = mset ?fs"
    by simp
  have len: "int (length ?fs) = num_files"
    using assms(1) by (simp add: range_py_def)
  have slow: "completed p @ running p @ waiting p = ?fs \<and> sched ?fs = ?fs" if "slow_mode"
  proof -
    from that w have one: "?w = 1" by simp
    from pool_reachable_fifo [OF assms(3) [unfolded one]]
      pool_reachable_fifo [OF assms(4) [unfolded one]]
    show ?thesis by simp
  qed
  have fast: "(\<exists>q. pool_reachable ?w ?fs q \<and> int (length (running q)) = num_files)
      \<and> (\<forall>order. mset order = mset ?fs \<longrightarrow>
            pool_reachable ?w ?fs \<lparr>waiting = [], running = [], completed = order\<rparr>)"
    if "\<not> slow_mode"
  proof -
    from that w len have wide: "int (length ?fs) \<le> ?w" by simp
    from pool_reachable_started [OF le_refl wide]
    have "pool_reachable ?w ?fs \<lparr>waiting = [], running = ?fs, completed = []\<rparr>"
      by simp
    with len have "\<exists>q. pool_reachable ?w ?fs q \<and> int (length (running q)) = num_files"
      by (intro exI conjI) (assumption, simp)
    moreover have "\<forall>order. mset order = mset ?fs \<longrightarrow>
            pool_reachable ?w ?fs \<lparr>waiting = [], running = [], completed = order\<rparr>"
      using pool_any_order [OF wide] by blast
    ultimately show ?thesis by blast
  qed
  from w pw bound calls pcalls perm slow fast show ?thesis
    by (intro conjI impI) simp_all
qed

lemma slow_pool_run:
  "pool_reachable 1 [1, 2 :: int] \<lparr>waiting = [2], running = [1], completed = []\<rparr>
   \<and> pool_reachable 1 [1, 2 :: int] \<lparr>waiting = [], running = [], completed = [1, 2]\<rparr>"
proof -
  let ?p0 = "\<lparr>waiting = [1, 2 :: int], running = [], completed = []\<rparr>"
  let ?p1 = "\<lparr>waiting = [2 :: int], running = [1], completed = []\<rparr>"
  let ?p2 = "\<lparr>waiting = [2 :: int], running = [], completed = [1]\<rparr>"
  let ?p3 = "\<lparr>waiting = [] :: int list, running = [2], completed = [1]\<rparr>"
  let ?p4 = "\<lparr>waiting = [] :: int list, running = [], completed = [1, 2]\<rparr>"
  have r0: "pool_reachable 1 [1, 2 :: int] ?p0" by (rule pool_reachable.submitted)
  have "pool_step 1 ?p0 ?p1"
    using pool_step.start [of ?p0 1 "[2]" 1] by simp
  with r0 have r1: "pool_reachable 1 [1, 2 :: int] ?p1" by (rule pool_reachable.step)
  have "pool_step 1 ?p1 ?p2"
    using pool_step.finish [of 1 ?p1 1] by simp
  with r1 have r2: "pool_reachable 1 [1, 2 :: int] ?p2" by (rule pool_reachable.step)
  have "pool_step 1 ?p2 ?p3"
    using pool_step.start [of ?p2 2 "[]" 1] by simp
  with r2 have r3: "pool_reachable 1 [1, 2 :: int] ?p3" by (rule pool_reachable.step)
  have "pool_step 1 ?p3 ?p4"
    using pool_step.finish [of 2 ?p3 1] by simp
  with r3 have r4: "pool_reachable 1 [1, 2 :: int] ?p4" by (rule pool_reachable.step)
  from r1 r4 show ?thesis by simp
qed

theorem pool_width_by_mode_witness:
  "(1::int) \<le> 2
   \<and> create_repo remote_ok [] (repo_name_of Map.empty 1) (repo_description_of Map.empty)
        (private_repo_of Map.empty) = Inr (Repo ''junk-repo-1'')
   \<and> pool_reachable (max_workers_files True 2) (range_py 1 (2 + 1))
        \<lparr>waiting = [2], running = [1], completed = []\<rparr>
   \<and> pool_reachable (max_workers_files True 2) (range_py 1 (2 + 1))
        \<lparr>waiting = [], running = [], completed = id (range_py 1 (2 + 1))\<rparr>
   \<and> int (length (running \<lparr>waiting = [2], running = [1::int], completed = []\<rparr>)) \<le> 1
   \<and> filter is_create_call (snd (process_repo remote_ok id 1 2 5 Map.empty True []))
       = map (\<lambda>i. create_call Map.empty (Repo ''junk-repo-1'', i, 5)) (range_py 1 (2 + 1))
   \<and> filter is_create_call
        (snd (python_main_files remote_ok id (Repo ''junk-repo-1'') 2 5 Map.empty True []))
       = map (\<lambda>i. create_call Map.empty (Repo ''junk-repo-1'', i, 5)) (range_py 1 (2 + 1))
   \<and> pool_reachable (max_workers_files False 2) (range_py 1 (2 + 1))
        \<lparr>waiting = [], running = [1, 2], completed = []\<rparr>
   \<and> pool_reachable (max_workers_files False 2) (range_py 1 (2 + 1))
        \<lparr>waiting = [], running = [], completed = rev (range_py 1 (2 + 1))\<rparr>
   \<and> int (length (running \<lparr>waiting = [], running = [1, 2::int], completed = []\<rparr>)) \<le> 2
   \<and> filter is_create_call (snd (process_repo remote_ok rev 1 2 5 Map.empty False []))
       = map (\<lambda>i. create_call Map.empty (Repo ''junk-repo-1'', i, 5))
           (rev (range_py 1 (2 + 1)))"
proof -
  have h1: "(1::int) \<le> 2" by simp
  have h2: "create_repo remote_ok [] (repo_name_of Map.empty 1) (repo_description_of Map.empty)
        (private_repo_of Map.empty) = Inr (Repo ''junk-repo-1'')"
    by code_simp
  have fs: "range_py 1 (2 + 1) = [1, 2]"
    by (simp add: range_py_def upto.simps)
  have w: "max_workers_files True 2 = 1"
    by (simp add: max_workers_files_def)
  from slow_pool_run
  have h3: "pool_reachable (max_workers_files True 2) (range_py 1 (2 + 1))
        \<lparr>waiting = [2], running = [1], completed = []\<rparr>"
    and h4: "pool_reachable (max_workers_files True 2) (range_py 1 (2 + 1))
        \<lparr>waiting = [], running = [], completed = id (range_py 1 (2 + 1))\<rparr>"
    unfolding fs w by simp_all
  have h5: "process_repo remote_ok id 1 2 5 Map.empty True []
      = (fst (process_repo remote_ok id 1 2 5 Map.empty True []),
         snd (process_repo remote_ok id 1 2 5 Map.empty True []))"
    by simp
  have h6: "python_main_files remote_ok id (Repo ''junk-repo-1'') 2 5 Map.empty True []
      = (fst (python_main_files remote_ok id (Repo ''junk-repo-1'') 2 5 Map.empty True []),
         snd (python_main_files remote_ok id (Repo ''junk-repo-1'') 2 5 Map.empty True []))"
    by simp
  from pool_width_by_mode [OF h1 h2 h3 h4 h5 h6]
  have "int (length (running \<lparr>waiting = [2], running = [1::int], completed = []\<rparr>)) \<le> 1
   \<and> filter is_create_call (snd (process_repo remote_ok id 1 2 5 Map.empty True []))
       = map (\<lambda>i. create_call Map.empty (Repo ''junk-repo-1'', i, 5)) (range_py 1 (2 + 1))
   \<and> filter is_create_call
        (snd (python_main_files remote_ok id (Repo ''junk-repo-1'') 2 5 Map.empty True []))
       = map (\<lambda>i. create_call Map.empty (Repo ''junk-repo-1'', i, 5)) (range_py 1 (2 + 1))"
    by simp
  note slow = this
  have w2: "max_workers_files False 2 = 2"
    by (simp add: max_workers_files_def)
  have g3: "pool_reachable (max_workers_files False 2) (range_py 1 (2 + 1))
        \<lparr>waiting = [], running = [1, 2], completed = []\<rparr>"
    unfolding fs w2 using pool_reachable_started [of 2 "[1, 2 :: int]" 2] by simp
  have g4: "pool_reachable (max_workers_files False 2) (range_py 1 (2 + 1))
        \<lparr>waiting = [], running = [], completed = rev (range_py 1 (2 + 1))\<rparr>"
    unfolding fs w2 using pool_any_order [of "[1, 2 :: int]" 2 "rev [1, 2]"] by simp
  have g5: "process_repo remote_ok rev 1 2 5 Map.empty False []
      = (fst (process_repo remote_ok rev 1 2 5 Map.empty False []),
         snd (process_repo remote_ok rev 1 2 5 Map.empty False []))"
    by simp
  have g6: "python_main_files remote_ok rev (Repo ''junk-repo-1'') 2 5 Map.empty False []
      = (fst (python_main_files remote_ok rev (Repo ''junk-repo-1'') 2 5 Map.empty False []),
         snd (python_main_files remote_ok rev (Repo ''junk-repo-1'') 2 5 Map.empty False []))"
    by simp
  from pool_width_by_mode [OF h1 h2 g3 g4 g5 g6]
  have fast: "int (length (running \<lparr>waiting = [], running = [1, 2::int], completed = []\<rparr>)) \<le> 2
   \<and> filter is_create_call (snd (process_repo remote_ok rev 1 2 5 Map.empty False []))
       = map (\<lambda>i. create_call Map.empty (Repo ''junk-repo-1'', i, 5))
           (rev (range_py 1 (2 + 1)))"
    by simp
  from h1 h2 h3 h4 slow g3 g4 fast show ?thesis by blast
qed

end
